theory Spec2Isabelle
  imports Main
begin

section \<open>Asset tracker: the assignment ledger and the serial allocator\<close>

text \<open>
  The development embeds two parts of the repository:
  \<^item> the schema and stored procedures of \<^verbatim>\<open>AssetManagament.sql\<close> (tables \<^verbatim>\<open>Employees\<close>,
    \<^verbatim>\<open>Assets\<close>, \<^verbatim>\<open>AssetAssignments\<close>, the check constraint
    \<^verbatim>\<open>CK_ReturnedAfterAssigned\<close>, the filtered unique index \<^verbatim>\<open>UQ_OneAssetOneEmployee\<close>,
    \<^verbatim>\<open>sp_AssignAsset\<close>, \<^verbatim>\<open>sp_ReturnAsset\<close>);
  \<^item> the request handlers and \<^verbatim>\<open>generateSerialNumber\<close> of \<^verbatim>\<open>Backend/server.js\<close>.

  The database is a record of three row lists. Every SQL statement is one atomic function
  from a database to either an engine error (\<open>Inl\<close>) or the new database with the
  statement's result (\<open>Inr\<close>). A handler is the composition of its statements in source
  order; an \<^verbatim>\<open>await\<close> that rejects is an \<open>Inl\<close> that reaches the handler's
  \<^verbatim>\<open>catch\<close>. Time (\<^verbatim>\<open>GETDATE()\<close>, \<^verbatim>\<open>new Date()\<close>) is an input of the operation that
  reads it.
\<close>

subsection \<open>JavaScript string helpers\<close>

definition isAsciiLetter :: "char \<Rightarrow> bool" where
  "isAsciiLetter c =
     (let n = (of_char c :: nat) in (65 \<le> n \<and> n \<le> 90) \<or> (97 \<le> n \<and> n \<le> 122))"

definition isDigit :: "char \<Rightarrow> bool" where
  "isDigit c = (let n = (of_char c :: nat) in 48 \<le> n \<and> n \<le> 57)"

definition isSpace :: "char \<Rightarrow> bool" where
  "isSpace c = (let n = (of_char c :: nat) in n = 32 \<or> (9 \<le> n \<and> n \<le> 13) \<or> n = 160)"

definition toUpperChar :: "char \<Rightarrow> char" where
  "toUpperChar c =
     (let n = (of_char c :: nat) in if 97 \<le> n \<and> n \<le> 122 then char_of (n - 32) else c)"

text \<open>\<^verbatim>\<open>s.toUpperCase()\<close>, on the ASCII letters that survive the regular expression.\<close>

definition toUpperCase :: "string \<Rightarrow> string" where
  "toUpperCase s = map toUpperChar s"

text \<open>\<^verbatim>\<open>s.replace(/[^a-zA-Z]/g, '')\<close>: every character that is not an ASCII letter goes.\<close>

definition removeNonLetters :: "string \<Rightarrow> string" where
  "removeNonLetters s = filter isAsciiLetter s"

text \<open>\<^verbatim>\<open>s.substring(0, n)\<close>.\<close>

definition substring0 :: "nat \<Rightarrow> string \<Rightarrow> string" where
  "substring0 n s = take n s"

text \<open>\<^verbatim>\<open>s.padEnd(n, c)\<close> and \<^verbatim>\<open>s.padStart(n, c)\<close> with a one-character filler.\<close>

definition padEnd :: "nat \<Rightarrow> char \<Rightarrow> string \<Rightarrow> string" where
  "padEnd n c s = s @ replicate (n - length s) c"

definition padStart :: "nat \<Rightarrow> char \<Rightarrow> string \<Rightarrow> string" where
  "padStart n c s = replicate (n - length s) c @ s"

definition digitChar :: "nat \<Rightarrow> char" where
  "digitChar d = char_of (48 + d)"

text \<open>Decimal digits of a natural number, most significant first.\<close>

fun natToString :: "nat \<Rightarrow> string" where
  "natToString n =
     (if n < 10 then [digitChar n] else natToString (n div 10) @ [digitChar (n mod 10)])"

declare natToString.simps [simp del]

text \<open>
  A JavaScript number is a double. The numbers met here are integers, and a double
  holding an integer is modelled by that integer: every integer below \<open>2^53\<close> in
  absolute value is a double, a larger one is rounded to 53 significant bits, ties to
  the even neighbour.
\<close>

fun bitlen :: "nat \<Rightarrow> nat" where
  "bitlen n = (if n = 0 then 0 else Suc (bitlen (n div 2)))"

declare bitlen.simps [simp del]

definition roundDouble :: "int \<Rightarrow> int" where
  "roundDouble i =
     (if \<bar>i\<bar> < 2 ^ 53 then i
      else (let e = bitlen (nat \<bar>i\<bar>) - 53;
                q = \<bar>i\<bar> div 2 ^ e;
                r = \<bar>i\<bar> mod 2 ^ e;
                h = 2 ^ e div 2;
                m = (if h < r \<or> (r = h \<and> odd q) then q + 1 else q)
            in sgn i * (m * 2 ^ e)))"

text \<open>
  \<^verbatim>\<open>Number.prototype.toString\<close> of a double \<open>x\<close> from \<open>2^53\<close> on: the fewest digits \<open>s\<close>
  (\<open>k\<close> of them) and the exponent \<open>n\<close> with \<open>s * 10^(n - k)\<close> rounding to \<open>x\<close>, the
  closest such \<open>s\<close> when there are several; printed with zeros appended up to 21
  digits, in exponent notation beyond.
\<close>

definition shortestCandidates :: "int \<Rightarrow> (nat \<times> nat \<times> int) list" where
  "shortestCandidates x =
     (let nd = length (natToString (nat x))
      in concat (map (\<lambda>k.
           concat (map (\<lambda>n.
             filter (\<lambda>(k, n, s). 10 ^ (k - 1) \<le> s \<and> s < 10 ^ k
                                 \<and> roundDouble (s * 10 ^ (n - k)) = x)
               (if k \<le> n then [(k, n, x div 10 ^ (n - k)), (k, n, x div 10 ^ (n - k) + 1)]
                else []))
             [nd, nd + 1]))
           [1 ..< 18]))"

definition closest :: "int \<Rightarrow> (nat \<times> nat \<times> int) list \<Rightarrow> (nat \<times> nat \<times> int) option" where
  "closest x cs =
     (let dist = (\<lambda>(k, n, s). \<bar>s * 10 ^ (n - k) - x\<bar>)
      in foldl (\<lambda>best c. case best of
                  None \<Rightarrow> Some c
                | Some b \<Rightarrow> if dist c < dist b \<or> (dist c = dist b \<and> even (snd (snd c)))
                            then Some c else Some b) None cs)"

definition bigToString :: "int \<Rightarrow> string" where
  "bigToString x =
     (case shortestCandidates x of
        [] \<Rightarrow> natToString (nat x)
      | (k0, n0, s0) # rest \<Rightarrow>
          (case closest x (filter (\<lambda>(k, n, s). k = k0) ((k0, n0, s0) # rest)) of
             None \<Rightarrow> natToString (nat x)
           | Some (k, n, s) \<Rightarrow>
               if n \<le> 21 then natToString (nat s) @ replicate (n - k) CHR ''0''
               else (let ds = natToString (nat s)
                     in (if k = 1 then ds else hd ds # CHR ''.'' # tl ds)
                        @ ''e+'' @ natToString (n - 1))))"

text \<open>
  \<^verbatim>\<open>n.toString()\<close> of an integer-valued double: below \<open>2^53\<close> the fewest digits are
  all its decimal digits.
\<close>

definition toString :: "int \<Rightarrow> string" where
  "toString i =
     (let digits = (\<lambda>x. if x < 2 ^ 53 then natToString (nat x) else bigToString x)
      in if i < 0 then CHR ''-'' # digits (- i) else digits i)"

text \<open>\<^verbatim>\<open>s.split('-')\<close>: the pieces between the separators; an empty string gives one empty piece.\<close>

fun split :: "char \<Rightarrow> string \<Rightarrow> string list" where
  "split sep [] = [[]]"
| "split sep (c # cs) =
     (if c = sep then [] # split sep cs
      else (case split sep cs of
              [] \<Rightarrow> [[c]]
            | p # ps \<Rightarrow> (c # p) # ps))"

definition digitVal :: "char \<Rightarrow> int" where
  "digitVal c = int (of_char c) - 48"

text \<open>The value of a digit string, read left to right.\<close>

definition digitsVal :: "string \<Rightarrow> int" where
  "digitsVal ds = foldl (\<lambda>acc c. 10 * acc + digitVal c) 0 ds"

text \<open>
  \<^verbatim>\<open>parseInt(s, 10)\<close>: leading white space is skipped, one sign is read, then the longest
  run of digits, whose value is rounded to a double; \<open>None\<close> is NaN (no digit).
  White space is what fits a character of eight bits: the ASCII blanks and U+00A0.
\<close>

definition parseInt :: "string \<Rightarrow> int option" where
  "parseInt s =
     (let t = dropWhile isSpace s;
          neg = (t \<noteq> [] \<and> hd t = CHR ''-'');
          u = (if t \<noteq> [] \<and> (hd t = CHR ''-'' \<or> hd t = CHR ''+'') then tl t else t);
          ds = takeWhile isDigit u
      in if ds = [] then None
         else Some (roundDouble (if neg then - digitsVal ds else digitsVal ds)))"

text \<open>\<^verbatim>\<open>s.includes(p)\<close>: \<open>p\<close> occurs in \<open>s\<close> as a contiguous substring.\<close>

fun includes_str :: "string \<Rightarrow> string \<Rightarrow> bool" where
  "includes_str [] p = (p = [])"
| "includes_str (c # cs) p = (take (length p) (c # cs) = p \<or> includes_str cs p)"

subsection \<open>The schema\<close>

text \<open>
  One record per table of \<^verbatim>\<open>AssetManagament.sql\<close>, the columns under their own names
  (the two foreign-key columns of \<^verbatim>\<open>AssetAssignments\<close> and the \<^verbatim>\<open>CreatedAt\<close> columns carry a
  prefix, since a field name belongs to one record). \<^verbatim>\<open>DATETIME2\<close> values are instants
  on a line, \<open>nat\<close>; a nullable column is an \<open>option\<close>. \<^verbatim>\<open>INT\<close> keys are \<open>int\<close>: no
  table here comes near \<open>2^31\<close> rows. The \<^verbatim>\<open>IDENTITY(1,1)\<close> counters are part of the
  database.
\<close>

type_synonym datetime = nat

record employee =
  EmployeeId :: int
  FullName :: string
  Email :: string
  Position :: "string option"
  emp_CreatedAt :: datetime

record asset =
  AssetId :: int
  AssetName :: string
  AssetType :: string
  SerialNumber :: "string option"
  ast_CreatedAt :: datetime

record assignment =
  AssignmentId :: int
  aa_AssetId :: int
  aa_EmployeeId :: int
  AssignedAt :: datetime
  ReturnedAt :: "datetime option"

record database =
  Employees :: "employee list"
  Assets :: "asset list"
  AssetAssignments :: "assignment list"
  identEmployees :: int
  identAssets :: int
  identAssignments :: int

text \<open>The database right after the \<^verbatim>\<open>CREATE TABLE\<close> statements.\<close>

definition emptyDb :: database where
  "emptyDb = \<lparr>Employees = [], Assets = [], AssetAssignments = [],
              identEmployees = 0, identAssets = 0, identAssignments = 0\<rparr>"

text \<open>
  The errors the engine and the driver raise on these tables: the handlers of
  \<^verbatim>\<open>server.js\<close> inspect \<^verbatim>\<open>err.message\<close>. An engine error carries the text of its
  message up to the name of the object concerned, without the quotation marks; the
  driver's error carries its message in full. The schema names neither the foreign keys
  nor the unique constraints; the names used below stand for the generated ones.
\<close>

datatype sql_error =
    DuplicateKeyIndex string string
  | DuplicateKeyConstraint string string
  | ConstraintConflict string string string
  | ConversionFailed string
  | ConversionOverflow string
  | ParameterInvalid string

fun sql_message :: "sql_error \<Rightarrow> string" where
  "sql_message (DuplicateKeyIndex object index) =
     ''Cannot insert duplicate key row in object '' @ object @
     '' with unique index '' @ index @ ''.''"
| "sql_message (DuplicateKeyConstraint constraint object) =
     ''Violation of UNIQUE KEY constraint '' @ constraint @
     ''. Cannot insert duplicate key in object '' @ object @ ''.''"
| "sql_message (ConstraintConflict statement kind constraint) =
     ''The '' @ statement @ '' statement conflicted with the '' @ kind @
     '' constraint '' @ constraint @ ''.''"
| "sql_message (ConversionFailed v) =
     ''Conversion failed when converting the nvarchar value '' @ v @ '' to data type int.''"
| "sql_message (ConversionOverflow v) =
     ''The conversion of the nvarchar value '' @ v @ '' overflowed an int column.''"
| "sql_message (ParameterInvalid name) =
     ''Validation failed for parameter '' @ [CHR 0x27] @ name @ [CHR 0x27] @
     ''. Value must be between -2147483648 and 2147483647, inclusive.''"

text \<open>
  A parameter bound with \<^verbatim>\<open>.input(name, sql.Int, value)\<close> is checked by the driver before
  the statement is sent: outside the 32-bit range the request is rejected with the last
  of the errors above.
\<close>

definition isSqlInt :: "int \<Rightarrow> bool" where
  "isSqlInt i = (- 2147483648 \<le> i \<and> i \<le> 2147483647)"

subsection \<open>The serial allocator: \<^verbatim>\<open>generateSerialNumber\<close>\<close>

text \<open>
  \<^verbatim>\<open>s LIKE pattern\<close> with the wildcards \<^verbatim>\<open>%\<close> (any run of characters) and \<^verbatim>\<open>_\<close> (one
  character). The patterns built here are two upper-case letters, a dash, the year's
  digits, a dash and a final \<^verbatim>\<open>%\<close>, so no bracket expression occurs. Characters are
  compared exactly.
\<close>

fun sqlLike :: "string \<Rightarrow> string \<Rightarrow> bool" where
  "sqlLike [] [] = True"
| "sqlLike [] (c # cs) = False"
| "sqlLike (p # ps) [] = (if p = CHR ''%'' then sqlLike ps [] else False)"
| "sqlLike (p # ps) (c # cs) =
     (if p = CHR ''%'' then (if sqlLike ps (c # cs) then True else sqlLike (p # ps) cs)
      else if p = CHR ''_'' then sqlLike ps cs
      else if p = c then sqlLike ps cs else False)"

text \<open>\<^verbatim>\<open>RIGHT(s, n)\<close>: the last \<open>n\<close> characters, the whole string when it is shorter.\<close>

definition right_chars :: "nat \<Rightarrow> string \<Rightarrow> string" where
  "right_chars n s = drop (length s - n) s"

text \<open>
  \<^verbatim>\<open>CAST(s AS INT)\<close>: blanks around the number are ignored, one sign is read, the rest must
  be digits (none gives 0); anything else fails, and so does a value beyond \<open>2^31 - 1\<close>.
\<close>

definition castInt :: "string \<Rightarrow> sql_error + int" where
  "castInt s =
     (let t = rev (dropWhile (\<lambda>c. c = CHR '' '') (rev (dropWhile (\<lambda>c. c = CHR '' '') s)));
          neg = (t \<noteq> [] \<and> hd t = CHR ''-'');
          u = (if t \<noteq> [] \<and> (hd t = CHR ''-'' \<or> hd t = CHR ''+'') then tl t else t)
      in if \<not> list_all isDigit u then Inl (ConversionFailed s)
         else if 2147483647 < digitsVal u then Inl (ConversionOverflow s)
         else Inr (if neg then - digitsVal u else digitsVal u))"

text \<open>
  \<^verbatim>\<open>ORDER BY key DESC\<close> with \<^verbatim>\<open>TOP 1\<close>: a row with the greatest key. Among rows with
  equal keys the engine is free to choose; the model takes the first in table order.
\<close>

fun top1_desc :: "('a \<times> int) list \<Rightarrow> ('a \<times> int) option" where
  "top1_desc [] = None"
| "top1_desc (x # xs) =
     (case top1_desc xs of
        None \<Rightarrow> Some x
      | Some y \<Rightarrow> if snd x < snd y then Some y else Some x)"

text \<open>The sort keys of the rows, or the first conversion error.\<close>

fun orderKeys :: "string list \<Rightarrow> sql_error + (string \<times> int) list" where
  "orderKeys [] = Inr []"
| "orderKeys (s # ss) =
     (case castInt (right_chars 3 s) of
        Inl e \<Rightarrow> Inl e
      | Inr k \<Rightarrow> (case orderKeys ss of Inl e \<Rightarrow> Inl e | Inr ks \<Rightarrow> Inr ((s, k) # ks)))"

text \<open>
  The query of lines 109 to 116:
  \<^verbatim>\<open>SELECT TOP 1 SerialNumber FROM Assets WHERE SerialNumber LIKE @pattern
  ORDER BY CAST(RIGHT(SerialNumber, 3) AS INT) DESC\<close>.
  A \<^verbatim>\<open>NULL\<close> serial matches no pattern. The result is the record set: no row or one.
\<close>

definition matchingSerials :: "database \<Rightarrow> string \<Rightarrow> string list" where
  "matchingSerials db p =
     filter (sqlLike p) (List.map_filter SerialNumber (Assets db))"

definition selectTopSerial :: "database \<Rightarrow> string \<Rightarrow> sql_error + string list" where
  "selectTopSerial db p =
     (case orderKeys (matchingSerials db p) of
        Inl e \<Rightarrow> Inl e
      | Inr ks \<Rightarrow> (case top1_desc ks of None \<Rightarrow> Inr [] | Some (s, k) \<Rightarrow> Inr [s]))"

text \<open>\<^verbatim>\<open>SELECT COUNT(*) as cnt FROM Assets WHERE SerialNumber = @serial\<close>.\<close>

definition countSerial :: "database \<Rightarrow> string \<Rightarrow> nat" where
  "countSerial db serial = length (filter (\<lambda>a. SerialNumber a = Some serial) (Assets db))"

text \<open>The same query as the statement the function awaits; on this table it raises nothing.\<close>

definition selectCount :: "database \<Rightarrow> string \<Rightarrow> sql_error + nat" where
  "selectCount db serial = Inr (countSerial db serial)"

text \<open>Lines 99 to 103: the two-letter prefix.\<close>

definition serialPrefix :: "string \<Rightarrow> string" where
  "serialPrefix assetType =
     padEnd 2 CHR ''X'' (toUpperCase (substring0 2 (removeNonLetters assetType)))"

text \<open>Line 106; \<open>year\<close> is what \<^verbatim>\<open>new Date().getFullYear()\<close> returns.\<close>

definition basePattern :: "nat \<Rightarrow> string \<Rightarrow> string" where
  "basePattern year assetType = serialPrefix assetType @ ''-'' @ natToString year @ ''-''"

text \<open>Lines 118 to 129: the number after the one of the row found.\<close>

definition nextNumber :: "string list \<Rightarrow> int" where
  "nextNumber recordset =
     (case recordset of
        [] \<Rightarrow> 1
      | lastSerial # _ \<Rightarrow>
          (let parts = split CHR ''-'' lastSerial
           in if length parts = 3
              then (case parseInt (parts ! 2) of
                      None \<Rightarrow> 1
                    | Some lastNum \<Rightarrow> roundDouble (lastNum + 1))
              else 1))"

text \<open>
  Lines 98 to 132: the serial number an attempt proposes, before the uniqueness check;
  a failing query rejects the call.
\<close>

definition proposedSerial :: "database \<Rightarrow> nat \<Rightarrow> string \<Rightarrow> sql_error + string" where
  "proposedSerial db year assetType =
     (case selectTopSerial db (basePattern year assetType @ ''%'') of
        Inl e \<Rightarrow> Inl e
      | Inr recordset \<Rightarrow>
          Inr (basePattern year assetType @
               padStart 3 CHR ''0'' (toString (nextNumber recordset))))"

text \<open>
  The whole function, lines 97 to 145. It reads the clock once and the database twice in
  every attempt, and other requests may write in between: \<open>clock j\<close> is the year read by
  attempt \<open>j\<close>, \<open>seen (2 * j)\<close> the database its first query reads and
  \<open>seen (2 * j + 1)\<close> the one its count query reads. A request starts with attempt 0; on
  a collision the function calls itself, which is the next attempt. A call that never
  returns is \<open>None\<close>.
\<close>

partial_function (option) generateSerialNumber ::
  "(nat \<Rightarrow> database) \<Rightarrow> (nat \<Rightarrow> nat) \<Rightarrow> nat \<Rightarrow> string \<Rightarrow> (sql_error + string) option" where
  "generateSerialNumber seen clock j assetType =
     (case proposedSerial (seen (2 * j)) (clock j) assetType of
        Inl e \<Rightarrow> Some (Inl e)
      | Inr serialNumber \<Rightarrow>
          (case selectCount (seen (2 * j + 1)) serialNumber of
             Inl e \<Rightarrow> Some (Inl e)
           | Inr cnt \<Rightarrow>
               if 0 < cnt
               then generateSerialNumber seen clock (Suc j) assetType
               else Some (Inr serialNumber)))"

text \<open>A call with no other request writing meanwhile, and a clock that stays in one year.\<close>

definition alone :: "database \<Rightarrow> nat \<Rightarrow> database" where
  "alone db k = db"

definition inYear :: "nat \<Rightarrow> nat \<Rightarrow> nat" where
  "inYear year j = year"

declare generateSerialNumber.simps [code]

subsection \<open>Constraints of \<^verbatim>\<open>AssetAssignments\<close>\<close>

text \<open>\<^verbatim>\<open>CONSTRAINT CK_ReturnedAfterAssigned CHECK (ReturnedAt IS NULL OR ReturnedAt >= AssignedAt)\<close>.\<close>

definition CK_ReturnedAfterAssigned :: "assignment \<Rightarrow> bool" where
  "CK_ReturnedAfterAssigned r =
     (case ReturnedAt r of None \<Rightarrow> True | Some t \<Rightarrow> AssignedAt r \<le> t)"

text \<open>
  \<^verbatim>\<open>CREATE UNIQUE INDEX UQ_OneAssetOneEmployee ON AssetAssignments(AssetId) WHERE ReturnedAt IS NULL\<close>:
  the index holds the rows with no return time, and no two of them share an asset.
\<close>

definition isActive :: "assignment \<Rightarrow> bool" where
  "isActive r = (ReturnedAt r = None)"

definition UQ_OneAssetOneEmployee :: "assignment list \<Rightarrow> bool" where
  "UQ_OneAssetOneEmployee rows = distinct (map aa_AssetId (filter isActive rows))"

text \<open>\<^verbatim>\<open>FOREIGN KEY (AssetId) REFERENCES Assets(AssetId)\<close> and the one to \<^verbatim>\<open>Employees\<close>.\<close>

definition FK_Asset :: "database \<Rightarrow> assignment \<Rightarrow> bool" where
  "FK_Asset db r = (aa_AssetId r \<in> set (map AssetId (Assets db)))"

definition FK_Employee :: "database \<Rightarrow> assignment \<Rightarrow> bool" where
  "FK_Employee db r = (aa_EmployeeId r \<in> set (map EmployeeId (Employees db)))"

subsection \<open>SQL statements\<close>

text \<open>
  Each statement is atomic: it returns the database after it and either the error it
  raised or the number of rows it affected. A statement that raises leaves the rows as
  they were; an \<^verbatim>\<open>INSERT\<close> that raises has still used up an identity value.
\<close>

type_synonym 'a sql_result = "database \<times> (sql_error + 'a)"

text \<open>
  \<^verbatim>\<open>INSERT INTO AssetAssignments (AssetId, EmployeeId, AssignedAt, ReturnedAt) VALUES (...)\<close>.
  The insert of \<^verbatim>\<open>sp_AssignAsset\<close> names two columns only: \<^verbatim>\<open>AssignedAt\<close> is then
  \<^verbatim>\<open>GETDATE()\<close> and \<^verbatim>\<open>ReturnedAt\<close> is \<^verbatim>\<open>NULL\<close>.
\<close>

definition insertAssignment ::
  "database \<Rightarrow> int \<Rightarrow> int \<Rightarrow> datetime \<Rightarrow> datetime option \<Rightarrow> nat sql_result" where
  "insertAssignment db a e t r =
     (let db1 = db\<lparr>identAssignments := identAssignments db + 1\<rparr>;
          row = \<lparr>AssignmentId = identAssignments db1, aa_AssetId = a, aa_EmployeeId = e,
                 AssignedAt = t, ReturnedAt = r\<rparr>
      in if \<not> CK_ReturnedAfterAssigned row
         then (db1, Inl (ConstraintConflict ''INSERT'' ''CHECK'' ''CK_ReturnedAfterAssigned''))
         else if \<not> FK_Asset db row
         then (db1, Inl (ConstraintConflict ''INSERT'' ''FOREIGN KEY'' ''FK_AssetAssignments_Assets''))
         else if \<not> FK_Employee db row
         then (db1, Inl (ConstraintConflict ''INSERT'' ''FOREIGN KEY'' ''FK_AssetAssignments_Employees''))
         else if \<not> UQ_OneAssetOneEmployee (AssetAssignments db @ [row])
         then (db1, Inl (DuplicateKeyIndex ''dbo.AssetAssignments'' ''UQ_OneAssetOneEmployee''))
         else (db1\<lparr>AssetAssignments := AssetAssignments db @ [row]\<rparr>, Inr 1))"

text \<open>
  \<^verbatim>\<open>UPDATE AssetAssignments SET AssetId = .., EmployeeId = .., AssignedAt = .., ReturnedAt = ..
  WHERE AssignmentId = @id\<close>: a write to every column a client may write (the identity
  column is read-only).
\<close>

definition updateAssignment ::
  "database \<Rightarrow> int \<Rightarrow> int \<Rightarrow> int \<Rightarrow> datetime \<Rightarrow> datetime option \<Rightarrow> nat sql_result" where
  "updateAssignment db i a e t r =
     (let hit = (\<lambda>row. AssignmentId row = i);
          new = (\<lambda>row. row\<lparr>aa_AssetId := a, aa_EmployeeId := e, AssignedAt := t, ReturnedAt := r\<rparr>);
          rows = map (\<lambda>row. if hit row then new row else row) (AssetAssignments db);
          changed = filter hit rows
      in if \<not> list_all CK_ReturnedAfterAssigned changed
         then (db, Inl (ConstraintConflict ''UPDATE'' ''CHECK'' ''CK_ReturnedAfterAssigned''))
         else if \<not> list_all (FK_Asset db) changed
         then (db, Inl (ConstraintConflict ''UPDATE'' ''FOREIGN KEY'' ''FK_AssetAssignments_Assets''))
         else if \<not> list_all (FK_Employee db) changed
         then (db, Inl (ConstraintConflict ''UPDATE'' ''FOREIGN KEY'' ''FK_AssetAssignments_Employees''))
         else if \<not> UQ_OneAssetOneEmployee rows
         then (db, Inl (DuplicateKeyIndex ''dbo.AssetAssignments'' ''UQ_OneAssetOneEmployee''))
         else (db\<lparr>AssetAssignments := rows\<rparr>, Inr (length changed)))"

text \<open>
  The statement of \<^verbatim>\<open>sp_ReturnAsset\<close>:
  \<^verbatim>\<open>UPDATE AssetAssignments SET ReturnedAt = GETDATE() WHERE AssignmentId = @AssignmentId AND ReturnedAt IS NULL\<close>.
  The rows it changes leave the filtered index, so only the check constraint can stop it.
\<close>

definition updateReturnedAt :: "database \<Rightarrow> int \<Rightarrow> datetime \<Rightarrow> nat sql_result" where
  "updateReturnedAt db i now =
     (let hit = (\<lambda>row. AssignmentId row = i \<and> ReturnedAt row = None);
          rows = map (\<lambda>row. if hit row then row\<lparr>ReturnedAt := Some now\<rparr> else row)
                     (AssetAssignments db);
          changed = filter hit (AssetAssignments db)
      in if \<not> list_all (\<lambda>row. AssignedAt row \<le> now) changed
         then (db, Inl (ConstraintConflict ''UPDATE'' ''CHECK'' ''CK_ReturnedAfterAssigned''))
         else (db\<lparr>AssetAssignments := rows\<rparr>, Inr (length changed)))"

text \<open>\<^verbatim>\<open>DELETE FROM AssetAssignments WHERE AssetId = @assetId\<close>.\<close>

definition deleteAssignmentsOfAsset :: "database \<Rightarrow> int \<Rightarrow> nat sql_result" where
  "deleteAssignmentsOfAsset db a =
     (db\<lparr>AssetAssignments := filter (\<lambda>row. aa_AssetId row \<noteq> a) (AssetAssignments db)\<rparr>,
      Inr (length (filter (\<lambda>row. aa_AssetId row = a) (AssetAssignments db))))"

text \<open>
  \<^verbatim>\<open>DELETE FROM Assets WHERE AssetId = @assetId\<close>: refused while an assignment row still
  refers to the asset.
\<close>

definition deleteAssetRow :: "database \<Rightarrow> int \<Rightarrow> nat sql_result" where
  "deleteAssetRow db a =
     (let gone = filter (\<lambda>x. AssetId x = a) (Assets db)
      in if gone \<noteq> [] \<and> (\<exists>row \<in> set (AssetAssignments db). aa_AssetId row = a)
         then (db, Inl (ConstraintConflict ''DELETE'' ''REFERENCE'' ''FK_AssetAssignments_Assets''))
         else (db\<lparr>Assets := filter (\<lambda>x. AssetId x \<noteq> a) (Assets db)\<rparr>, Inr (length gone)))"

text \<open>
  \<^verbatim>\<open>INSERT INTO Assets (AssetName, AssetType, SerialNumber) VALUES (...)\<close>; the column
  \<^verbatim>\<open>SerialNumber\<close> is \<^verbatim>\<open>UNIQUE\<close>, and a unique constraint counts \<^verbatim>\<open>NULL\<close> as a value.
\<close>

definition insertAsset ::
  "database \<Rightarrow> string \<Rightarrow> string \<Rightarrow> string option \<Rightarrow> datetime \<Rightarrow> nat sql_result" where
  "insertAsset db name type serial now =
     (let db1 = db\<lparr>identAssets := identAssets db + 1\<rparr>;
          row = \<lparr>AssetId = identAssets db1, AssetName = name, AssetType = type,
                 SerialNumber = serial, ast_CreatedAt = now\<rparr>
      in if serial \<in> set (map SerialNumber (Assets db))
         then (db1, Inl (DuplicateKeyConstraint ''UQ_Assets_SerialNumber'' ''dbo.Assets''))
         else (db1\<lparr>Assets := Assets db @ [row]\<rparr>, Inr 1))"

text \<open>\<^verbatim>\<open>UPDATE Assets SET AssetName = @assetName, AssetType = @assetType WHERE AssetId = @assetId\<close>.\<close>

definition updateAsset :: "database \<Rightarrow> int \<Rightarrow> string \<Rightarrow> string \<Rightarrow> nat sql_result" where
  "updateAsset db a name type =
     (db\<lparr>Assets := map (\<lambda>x. if AssetId x = a then x\<lparr>AssetName := name, AssetType := type\<rparr> else x)
                        (Assets db)\<rparr>,
      Inr (length (filter (\<lambda>x. AssetId x = a) (Assets db))))"

text \<open>\<^verbatim>\<open>INSERT INTO Employees (FullName, Email, Position) VALUES (...)\<close>; \<^verbatim>\<open>Email\<close> is \<^verbatim>\<open>UNIQUE\<close>.\<close>

definition insertEmployee ::
  "database \<Rightarrow> string \<Rightarrow> string \<Rightarrow> string option \<Rightarrow> datetime \<Rightarrow> nat sql_result" where
  "insertEmployee db name email pos now =
     (let db1 = db\<lparr>identEmployees := identEmployees db + 1\<rparr>;
          row = \<lparr>EmployeeId = identEmployees db1, FullName = name, Email = email,
                 Position = pos, emp_CreatedAt = now\<rparr>
      in if email \<in> set (map Email (Employees db))
         then (db1, Inl (DuplicateKeyConstraint ''UQ_Employees_Email'' ''dbo.Employees''))
         else (db1\<lparr>Employees := Employees db @ [row]\<rparr>, Inr 1))"

subsection \<open>Stored procedures\<close>

text \<open>
  A procedure returns the database after it and either the error a statement raised or
  the text it printed. \<^verbatim>\<open>PRINT\<close> sends an informational message: it raises nothing, and
  the caller's \<^verbatim>\<open>await ... .execute(...)\<close> resolves.
\<close>

text \<open>The test of \<^verbatim>\<open>sp_AssignAsset\<close>:
  \<^verbatim>\<open>EXISTS (SELECT 1 FROM AssetAssignments WHERE AssetId = @AssetId AND ReturnedAt IS NULL)\<close>.\<close>

definition activeOfAsset :: "database \<Rightarrow> int \<Rightarrow> assignment list" where
  "activeOfAsset db a =
     filter (\<lambda>row. aa_AssetId row = a \<and> ReturnedAt row = None) (AssetAssignments db)"

text \<open>
  \<^verbatim>\<open>sp_AssignAsset\<close> is two statements, the test and the \<^verbatim>\<open>INSERT\<close>, and runs in no
  transaction: \<open>seen\<close> is the database the test reads, \<open>db\<close> the one the insert
  writes to. They differ when a statement of another request runs in between.
\<close>

definition sp_AssignAsset_steps ::
  "database \<Rightarrow> database \<Rightarrow> int \<Rightarrow> int \<Rightarrow> datetime \<Rightarrow> string sql_result" where
  "sp_AssignAsset_steps seen db a e now =
     (if activeOfAsset seen a \<noteq> [] then (db, Inr ''Asset already assigned'')
      else (case insertAssignment db a e now None of
              (db', Inl err) \<Rightarrow> (db', Inl err)
            | (db', Inr n) \<Rightarrow> (db', Inr ''Asset assigned successfully'')))"

text \<open>The procedure running alone.\<close>

definition sp_AssignAsset :: "database \<Rightarrow> int \<Rightarrow> int \<Rightarrow> datetime \<Rightarrow> string sql_result" where
  "sp_AssignAsset db a e now = sp_AssignAsset_steps db db a e now"

definition sp_ReturnAsset :: "database \<Rightarrow> int \<Rightarrow> datetime \<Rightarrow> string sql_result" where
  "sp_ReturnAsset db i now =
     (case updateReturnedAt db i now of
        (db', Inl err) \<Rightarrow> (db', Inl err)
      | (db', Inr rowcount) \<Rightarrow>
          if rowcount = 0 then (db', Inr ''Assignment not found or already returned'')
          else (db', Inr ''Asset returned successfully''))"

subsection \<open>Request handlers of \<^verbatim>\<open>server.js\<close>\<close>

text \<open>
  What a handler sends: the HTTP status, the \<^verbatim>\<open>success\<close> and \<^verbatim>\<open>message\<close> fields of the
  JSON body, and its \<^verbatim>\<open>data\<close> field (\<open>None\<close> when the body has none or it is
  \<^verbatim>\<open>undefined\<close>). Path and body parameters are the integers they denote.
\<close>

record 'a response =
  status :: nat
  success :: bool
  message :: string
  data :: "'a option"

text \<open>
  Lines 346 to 355, the query after \<^verbatim>\<open>sp_AssignAsset\<close>: the active rows of the asset joined
  with their employee and asset, latest \<^verbatim>\<open>AssignedAt\<close> first, \<^verbatim>\<open>TOP 1\<close>. A row of the
  result is the assignment with \<^verbatim>\<open>EmployeeName\<close> and \<^verbatim>\<open>AssetName\<close>.
\<close>

type_synonym assignment_view = "assignment \<times> string \<times> string"

definition joinedActive :: "database \<Rightarrow> int \<Rightarrow> assignment_view list" where
  "joinedActive db a =
     concat (map (\<lambda>aa.
        concat (map (\<lambda>e.
          map (\<lambda>x. (aa, FullName e, AssetName x))
              (filter (\<lambda>x. AssetId x = aa_AssetId aa) (Assets db)))
          (filter (\<lambda>e. EmployeeId e = aa_EmployeeId aa) (Employees db))))
        (activeOfAsset db a))"

definition selectNewAssignment :: "database \<Rightarrow> int \<Rightarrow> assignment_view option" where
  "selectNewAssignment db a =
     map_option fst
       (top1_desc (map (\<lambda>v. (v, int (AssignedAt (fst v)))) (joinedActive db a)))"

text \<open>
  \<^verbatim>\<open>POST /api/assignments\<close>, lines 335 to 370, with its \<^verbatim>\<open>catch\<close> block first;
  \<open>seen\<close> and \<open>db\<close> as in \<open>sp_AssignAsset_steps\<close>.
\<close>

definition assignments_catch :: "sql_error \<Rightarrow> assignment_view response" where
  "assignments_catch err =
     (if includes_str (sql_message err) ''already assigned''
      then \<lparr>status = 409, success = False, message = ''Asset is already assigned'',
             data = None\<rparr>
      else \<lparr>status = 400, success = False, message = sql_message err, data = None\<rparr>)"

definition post_assignments_steps ::
  "database \<Rightarrow> database \<Rightarrow> int \<Rightarrow> int \<Rightarrow> datetime \<Rightarrow> database \<times> assignment_view response" where
  "post_assignments_steps seen db assetId employeeId now =
     (if \<not> isSqlInt assetId then (db, assignments_catch (ParameterInvalid ''AssetId''))
      else if \<not> isSqlInt employeeId
      then (db, assignments_catch (ParameterInvalid ''EmployeeId''))
      else (case sp_AssignAsset_steps seen db assetId employeeId now of
              (db', Inr printed) \<Rightarrow>
                (db', \<lparr>status = 201, success = True, message = ''Asset assigned successfully'',
                       data = selectNewAssignment db' assetId\<rparr>)
            | (db', Inl err) \<Rightarrow> (db', assignments_catch err)))"

text \<open>The request running alone.\<close>

definition post_assignments ::
  "database \<Rightarrow> int \<Rightarrow> int \<Rightarrow> datetime \<Rightarrow> database \<times> assignment_view response" where
  "post_assignments db assetId employeeId now =
     post_assignments_steps db db assetId employeeId now"

text \<open>Lines 383 to 387: \<^verbatim>\<open>SELECT * FROM AssetAssignments WHERE AssignmentId = @assignmentId\<close>,
  of which the handler sends \<^verbatim>\<open>recordset[0]\<close>.\<close>

definition selectAssignment :: "database \<Rightarrow> int \<Rightarrow> assignment option" where
  "selectAssignment db i =
     (case filter (\<lambda>row. AssignmentId row = i) (AssetAssignments db) of
        [] \<Rightarrow> None
      | row # _ \<Rightarrow> Some row)"

text \<open>\<^verbatim>\<open>POST /api/assignments/:assignmentId/return\<close>, lines 373 to 398.\<close>

definition post_return ::
  "database \<Rightarrow> int \<Rightarrow> datetime \<Rightarrow> database \<times> assignment response" where
  "post_return db assignmentId now =
     (if \<not> isSqlInt assignmentId
      then (db, \<lparr>status = 400, success = False,
                 message = sql_message (ParameterInvalid ''AssignmentId''), data = None\<rparr>)
      else (case sp_ReturnAsset db assignmentId now of
              (db', Inr printed) \<Rightarrow>
                (db', \<lparr>status = 200, success = True, message = ''Asset returned successfully'',
                       data = selectAssignment db' assignmentId\<rparr>)
            | (db', Inl err) \<Rightarrow>
                (db', \<lparr>status = 400, success = False, message = sql_message err,
                       data = None\<rparr>)))"

text \<open>
  \<^verbatim>\<open>DELETE /api/assets/:assetId\<close>, lines 283 to 328, as one request running alone: its
  three statements follow each other with no statement of another request in between.
\<close>

definition delete_asset :: "database \<Rightarrow> int \<Rightarrow> database \<times> unit response" where
  "delete_asset db assetId =
     (if \<not> isSqlInt assetId
      then (db, \<lparr>status = 400, success = False,
                 message = sql_message (ParameterInvalid ''assetId''), data = None\<rparr>)
      else if 0 < length (activeOfAsset db assetId)
      then (db, \<lparr>status = 400, success = False,
                 message = ''Cannot delete asset. It is currently assigned to an employee. Return it first.'',
                 data = None\<rparr>)
      else (case deleteAssignmentsOfAsset db assetId of
              (db1, Inl err) \<Rightarrow>
                (db1, \<lparr>status = 400, success = False, message = sql_message err, data = None\<rparr>)
            | (db1, Inr n) \<Rightarrow>
                (case deleteAssetRow db1 assetId of
                   (db2, Inl err) \<Rightarrow>
                     (db2, \<lparr>status = 400, success = False, message = sql_message err,
                            data = None\<rparr>)
                 | (db2, Inr rowsAffected) \<Rightarrow>
                     if rowsAffected = 0
                     then (db2, \<lparr>status = 404, success = False, message = ''Asset not found'',
                                 data = None\<rparr>)
                     else (db2, \<lparr>status = 200, success = True,
                                 message = ''Asset deleted successfully'', data = None\<rparr>))))"

text \<open>The \<^verbatim>\<open>catch\<close> block of \<^verbatim>\<open>POST /api/assets\<close>, lines 177 to 188.\<close>

definition assets_catch :: "sql_error \<Rightarrow> asset response" where
  "assets_catch err =
     (if includes_str (sql_message err) ''UNIQUE'' \<or> includes_str (sql_message err) ''duplicate''
      then \<lparr>status = 400, success = False,
             message = ''Serial number conflict. Please try again.'', data = None\<rparr>
      else \<lparr>status = 400, success = False, message = sql_message err, data = None\<rparr>)"

text \<open>
  \<^verbatim>\<open>POST /api/assets\<close>, lines 148 to 189: the serial is generated, then the row is
  inserted into \<open>db\<close>; \<open>seen\<close> and \<open>clock\<close> as in \<open>generateSerialNumber\<close>. A call of \<^verbatim>\<open>generateSerialNumber\<close> that never returns leaves the request
  unanswered: \<open>None\<close>.
\<close>

definition post_assets_steps ::
  "(nat \<Rightarrow> database) \<Rightarrow> (nat \<Rightarrow> nat) \<Rightarrow> database \<Rightarrow> string \<Rightarrow> string \<Rightarrow> datetime
   \<Rightarrow> (database \<times> asset response) option" where
  "post_assets_steps seen clock db assetName assetType now =
     (if assetName = [] \<or> assetType = []
      then Some (db, \<lparr>status = 400, success = False,
                       message = ''Asset name and type are required'', data = None\<rparr>)
      else (case generateSerialNumber seen clock 0 assetType of
              None \<Rightarrow> None
            | Some (Inl err) \<Rightarrow> Some (db, assets_catch err)
            | Some (Inr serialNumber) \<Rightarrow>
                (case insertAsset db assetName assetType (Some serialNumber) now of
                   (db', Inr n) \<Rightarrow>
                     Some (db', \<lparr>status = 201, success = True,
                                 message = ''Asset created successfully'',
                                 data = (case Assets db' of [] \<Rightarrow> None
                                         | _ \<Rightarrow> Some (last (Assets db')))\<rparr>)
                 | (db', Inl err) \<Rightarrow> Some (db', assets_catch err))))"


subsection \<open>Reachable databases\<close>

text \<open>
  The databases the system can be in: from the empty schema, by any statement above
  (a client writing to the tables directly) and by any request to the handlers, in any
  number and order. Statements of different requests interleave at statement
  boundaries, so every database a set of concurrent requests passes through is reached
  by a sequence of statements.
\<close>

inductive reachable :: "database \<Rightarrow> bool" where
  r_empty: "reachable emptyDb"
| r_insertEmployee: "reachable db \<Longrightarrow> reachable (fst (insertEmployee db name email pos now))"
| r_insertAsset: "reachable db \<Longrightarrow> reachable (fst (insertAsset db name type serial now))"
| r_updateAsset: "reachable db \<Longrightarrow> reachable (fst (updateAsset db a name type))"
| r_insertAssignment: "reachable db \<Longrightarrow> reachable (fst (insertAssignment db a e t r))"
| r_updateAssignment: "reachable db \<Longrightarrow> reachable (fst (updateAssignment db i a e t r))"
| r_updateReturnedAt: "reachable db \<Longrightarrow> reachable (fst (updateReturnedAt db i now))"
| r_deleteAssignments: "reachable db \<Longrightarrow> reachable (fst (deleteAssignmentsOfAsset db a))"
| r_deleteAssetRow: "reachable db \<Longrightarrow> reachable (fst (deleteAssetRow db a))"
| r_Assign: "reachable db \<Longrightarrow> reachable (fst (post_assignments db a e now))"
| r_AssignRacing: "reachable db \<Longrightarrow> reachable (fst (post_assignments_steps seen db a e now))"
| r_Return: "reachable db \<Longrightarrow> reachable (fst (post_return db i now))"
| r_DeleteAsset: "reachable db \<Longrightarrow> reachable (fst (delete_asset db a))"
| r_CreateAsset: "reachable db \<Longrightarrow>
                  post_assets_steps seen clock db name type now = Some (db', resp) \<Longrightarrow>
                  reachable db'"

text \<open>The two declared constraints on the rows of \<^verbatim>\<open>AssetAssignments\<close>, taken together.\<close>

definition constraints_hold :: "database \<Rightarrow> bool" where
  "constraints_hold db =
     (UQ_OneAssetOneEmployee (AssetAssignments db)
      \<and> list_all CK_ReturnedAfterAssigned (AssetAssignments db))"

text \<open>The number of assignment rows of an asset with no return time.\<close>

definition activeCount :: "database \<Rightarrow> int \<Rightarrow> nat" where
  "activeCount db a = length (activeOfAsset db a)"

text \<open>An upper-case ASCII letter.\<close>

definition isUpperLetter :: "char \<Rightarrow> bool" where
  "isUpperLetter c = (let n = (of_char c :: nat) in 65 \<le> n \<and> n \<le> 90)"

text \<open>
  The allocation rule in the specification's words: the numerically highest sequence
  number among the stored serials that match the prefix, plus one; 1 when none matches.
\<close>

definition spec_nextNumber :: "database \<Rightarrow> string \<Rightarrow> int" where
  "spec_nextNumber db base =
     (case List.map_filter (\<lambda>s. parseInt (drop (length base) s))
             (matchingSerials db (base @ ''%'')) of
        [] \<Rightarrow> 1
      | n # ns \<Rightarrow> fold max ns n + 1)"



text \<open>
  The retry with a budget, as the specification wants it: the attempts of
  \<^verbatim>\<open>generateSerialNumber\<close>, at most \<open>budget\<close> of them; \<open>None\<close> is the exhausted budget,
  where \<^verbatim>\<open>SerialAllocationFailed\<close> would be raised.
\<close>

fun generateSerialNumber_budget ::
  "nat \<Rightarrow> (nat \<Rightarrow> database) \<Rightarrow> (nat \<Rightarrow> nat) \<Rightarrow> nat \<Rightarrow> string \<Rightarrow> (sql_error + string) option" where
  "generateSerialNumber_budget 0 seen clock j assetType = None"
| "generateSerialNumber_budget (Suc budget) seen clock j assetType =
     (case proposedSerial (seen (2 * j)) (clock j) assetType of
        Inl e \<Rightarrow> Some (Inl e)
      | Inr serialNumber \<Rightarrow>
          (case selectCount (seen (2 * j + 1)) serialNumber of
             Inl e \<Rightarrow> Some (Inl e)
           | Inr cnt \<Rightarrow>
               if 0 < cnt
               then generateSerialNumber_budget budget seen clock (Suc j) assetType
               else Some (Inr serialNumber)))"

subsection \<open>Databases used as examples\<close>


text \<open>One laptop registered in 2025.\<close>

definition oneLaptop :: database where
  "oneLaptop = emptyDb\<lparr>Assets := [\<lparr>AssetId = 1, AssetName = ''MacBook Pro 16'',
      AssetType = ''Laptop'', SerialNumber = Some ''LA-2025-001'', ast_CreatedAt = 0\<rparr>],
      identAssets := 1\<rparr>"

text \<open>
  The laptops numbered 999 and 1000 of 2025: what is left of a thousand registrations
  after the first 998 assets were deleted.
\<close>

definition wideDb :: database where
  "wideDb = emptyDb\<lparr>Assets :=
      [\<lparr>AssetId = 999, AssetName = ''ThinkPad'', AssetType = ''Laptop'',
         SerialNumber = Some ''LA-2025-999'', ast_CreatedAt = 0\<rparr>,
       \<lparr>AssetId = 1000, AssetName = ''ThinkPad'', AssetType = ''Laptop'',
         SerialNumber = Some ''LA-2025-1000'', ast_CreatedAt = 1\<rparr>],
      identAssets := 1000\<rparr>"

text \<open>One asset and two employees, nothing assigned: three inserts into the empty schema.\<close>

definition ledgerDb :: database where
  "ledgerDb =
     fst (insertEmployee
       (fst (insertEmployee
         (fst (insertAsset emptyDb ''MacBook Pro 16'' ''Laptop'' (Some ''LA-2025-001'') 0))
         ''John Smith'' ''john@company.com'' None 0))
       ''Sarah Johnson'' ''sarah@company.com'' None 0)"

text \<open>The same after \<^verbatim>\<open>POST /api/assignments\<close> gave asset 1 to employee 1 at time 5.\<close>

definition assignedDb :: database where
  "assignedDb = fst (post_assignments ledgerDb 1 1 5)"

text \<open>The same after \<^verbatim>\<open>POST /api/assignments/1/return\<close> at time 7.\<close>

definition returnedDb :: database where
  "returnedDb = fst (post_return assignedDb 1 7)"

text \<open>
  Contention: in each of the first \<open>k\<close> attempts of a call, another request registers
  the laptop \<open>LA-2025-001\<close> between the two queries, and deletes it again before the next
  attempt.
\<close>

definition contended :: "nat \<Rightarrow> nat \<Rightarrow> database" where
  "contended k q = (if q < 2 * k \<and> odd q then oneLaptop else emptyDb)"

section \<open>Properties of the serial allocator\<close>

lemma toUpperChar_upper: "isAsciiLetter c \<Longrightarrow> isUpperLetter (toUpperChar c)"
  by (auto simp: isAsciiLetter_def isUpperLetter_def toUpperChar_def Let_def)

lemma isUpperLetter_X: "isUpperLetter CHR ''X''"
  by (simp add: isUpperLetter_def)

lemma serialPrefix_length: "length (serialPrefix t) = 2"
  by (simp add: serialPrefix_def padEnd_def toUpperCase_def substring0_def)

lemma take_filter_holds: "c \<in> set (take n (filter P xs)) \<Longrightarrow> P c"
  by (drule in_set_takeD) simp

lemma serialPrefix_upper: "list_all isUpperLetter (serialPrefix t)"
proof -
  let ?l = "take 2 (filter isAsciiLetter t)"
  have a: "isUpperLetter c" if "c \<in> set (map toUpperChar ?l)" for c
  proof -
    from that obtain d where d: "d \<in> set ?l" and c: "c = toUpperChar d"
      by (metis (no_types) in_set_conv_nth length_map nth_map nth_mem)
    from d have "isAsciiLetter d" by (rule take_filter_holds)
    with c show ?thesis by (simp add: toUpperChar_upper)
  qed
  have b: "isUpperLetter c" if "c \<in> set (replicate k CHR ''X'')" for c k
    using that isUpperLetter_X by (metis in_set_replicate)
  have "serialPrefix t = map toUpperChar ?l @ replicate (2 - length ?l) CHR ''X''"
    by (simp add: serialPrefix_def padEnd_def toUpperCase_def substring0_def
        removeNonLetters_def)
  then have "set (serialPrefix t) = set (map toUpperChar ?l) \<union> set (replicate (2 - length ?l) CHR ''X'')"
    by (simp only: set_append)
  with a b show ?thesis
    unfolding list_all_iff by blast
qed

lemma serialPrefix_filler:
  "serialPrefix t = take 2 (toUpperCase (removeNonLetters t) @ ''XX'')"
proof -
  let ?l = "map toUpperChar (filter isAsciiLetter t)"
  have *: "serialPrefix t = take 2 ?l @ replicate (2 - length (take 2 ?l)) CHR ''X''"
    by (simp add: serialPrefix_def padEnd_def toUpperCase_def substring0_def
        removeNonLetters_def take_map)
  have "replicate (2 - length (take 2 ?l)) CHR ''X'' = take (2 - length ?l) ''XX''"
    by (cases ?l rule: list.exhaust; cases "tl ?l") (auto simp: numeral_2_eq_2)
  with * show ?thesis
    by (simp add: toUpperCase_def removeNonLetters_def)
qed

text \<open>One attempt: an error or a free proposal returns, a collision starts the next one.\<close>

lemma gen_free:
  "proposedSerial (seen (2 * j)) (clock j) t = Inr s \<Longrightarrow> countSerial (seen (2 * j + 1)) s = 0 \<Longrightarrow>
   generateSerialNumber seen clock j t = Some (Inr s)"
  by (subst generateSerialNumber.simps) (simp add: selectCount_def)

lemma gen_error:
  "proposedSerial (seen (2 * j)) (clock j) t = Inl e \<Longrightarrow>
   generateSerialNumber seen clock j t = Some (Inl e)"
  by (subst generateSerialNumber.simps) simp

lemma gen_retry:
  "proposedSerial (seen (2 * j)) (clock j) t = Inr s \<Longrightarrow> 0 < countSerial (seen (2 * j + 1)) s \<Longrightarrow>
   generateSerialNumber seen clock j t = generateSerialNumber seen clock (Suc j) t"
  by (subst generateSerialNumber.simps) (simp add: selectCount_def)

text \<open>Alone and within one year, every attempt does what the first one does.\<close>

lemma gen_alone_Some:
  assumes "generateSerialNumber seen clock j t = Some r"
    and "seen = alone db" and "clock = inYear y"
  shows "(\<exists>e. r = Inl e \<and> proposedSerial db y t = Inl e) \<or>
         (\<exists>s. r = Inr s \<and> proposedSerial db y t = Inr s \<and> countSerial db s = 0)"
  using assms
proof (induct rule: generateSerialNumber.raw_induct[rotated 1, consumes 1])
  case (1 gen seen clock j t r)
  have sd: "seen (2 * j) = db" "seen (2 * j + 1) = db" "clock j = y"
    using 1(3,4) by (simp_all add: alone_def inYear_def)
  show ?case
  proof (cases "proposedSerial db y t")
    case (Inl e)
    with 1(2) sd have "r = Inl e" by simp
    with Inl show ?thesis by simp
  next
    case (Inr s)
    show ?thesis
    proof (cases "0 < countSerial db s")
      case True
      with Inr 1(2) sd have "gen seen clock (Suc j) t = Some r"
        by (simp add: selectCount_def)
      from 1(1)[OF this 1(3) 1(4)] show ?thesis .
    next
      case False
      with Inr 1(2) sd have "r = Inr s" by (simp add: selectCount_def)
      with Inr False show ?thesis by simp
    qed
  qed
qed

lemma gen_collision:
  assumes "proposedSerial db y t = Inr s" and "0 < countSerial db s"
  shows "generateSerialNumber (alone db) (inYear y) j t = None"
proof (cases "generateSerialNumber (alone db) (inYear y) j t")
  case None then show ?thesis .
next
  case (Some r)
  from gen_alone_Some[OF Some refl refl] assms show ?thesis by auto
qed








lemma digitVal_digitChar: "d < 10 \<Longrightarrow> digitVal (digitChar d) = int d"
  by (simp add: digitVal_def digitChar_def)



lemma digitsVal_snoc: "digitsVal (ds @ [c]) = 10 * digitsVal ds + digitVal c"
  by (simp add: digitsVal_def)

lemma digitsVal_natToString: "digitsVal (natToString n) = int n"
proof (induction n rule: natToString.induct)
  case (1 n)
  show ?case
  proof (cases "n < 10")
    case True
    then show ?thesis
      by (subst natToString.simps) (simp add: digitsVal_def digitVal_digitChar)
  next
    case False
    with 1 have "digitsVal (natToString (n div 10)) = int (n div 10)" by blast
    have unfold: "natToString n = natToString (n div 10) @ [digitChar (n mod 10)]"
      using False by (subst natToString.simps) simp
    have "digitVal (digitChar (n mod 10)) = int (n mod 10)"
      by (rule digitVal_digitChar) simp
    with \<open>digitsVal (natToString (n div 10)) = int (n div 10)\<close>
    have "digitsVal (natToString n) = 10 * int (n div 10) + int (n mod 10)"
      by (simp only: unfold digitsVal_snoc)
    also have "\<dots> = int n" by presburger
    finally show ?thesis .
  qed
qed

lemma digitsVal_zeros: "digitsVal (replicate z CHR ''0'' @ ds) = digitsVal ds"
proof -
  have "foldl (\<lambda>acc c. 10 * acc + digitVal c) 0 (replicate z CHR ''0'') = 0"
    by (induction z) (simp_all add: digitVal_def)
  then show ?thesis by (simp add: digitsVal_def)
qed






lemma pad_value: "digitsVal (padStart 3 CHR ''0'' (natToString n)) = int n"
  by (simp add: padStart_def digitsVal_zeros digitsVal_natToString)


lemma pad_inject:
  "padStart 3 CHR ''0'' (natToString m) = padStart 3 CHR ''0'' (natToString n) \<Longrightarrow> m = n"
proof -
  assume "padStart 3 CHR ''0'' (natToString m) = padStart 3 CHR ''0'' (natToString n)"
  then have "digitsVal (padStart 3 CHR ''0'' (natToString m))
      = digitsVal (padStart 3 CHR ''0'' (natToString n))" by (rule arg_cong)
  then have "int m = int n" by (simp only: pad_value)
  then show ?thesis by simp
qed






































text \<open>
  Claim C10. For every asset type the prefix has exactly two characters, both upper-case
  ASCII letters, and it is the type's letters in upper case followed by the filler \<open>X\<close>,
  cut to two: a type with no letter, such as \<open>123\<close>, gets \<open>XX\<close>, and the call returns a
  serial for it.
\<close>

theorem serial_prefix_two_upper_letters:
  "length (serialPrefix assetType) = 2
   \<and> list_all isUpperLetter (serialPrefix assetType)
   \<and> serialPrefix assetType = take 2 (toUpperCase (removeNonLetters assetType) @ ''XX'')
   \<and> serialPrefix ''123'' = ''XX''
   \<and> generateSerialNumber (alone emptyDb) (inYear 2025) 0 ''123'' = Some (Inr ''XX-2025-001'')"
proof -
  have a: "serialPrefix ''123'' = ''XX''" by code_simp
  have b: "generateSerialNumber (alone emptyDb) (inYear 2025) 0 ''123'' = Some (Inr ''XX-2025-001'')" by code_simp
  show ?thesis using serialPrefix_length serialPrefix_upper serialPrefix_filler a b by blast
qed


section \<open>Properties of the ledger\<close>

lemma rows_insertEmployee:
  "AssetAssignments (fst (insertEmployee db name email pos now)) = AssetAssignments db"
  by (simp add: insertEmployee_def Let_def)

lemma rows_insertAsset:
  "AssetAssignments (fst (insertAsset db name type serial now)) = AssetAssignments db"
  by (simp add: insertAsset_def Let_def)

lemma rows_updateAsset:
  "AssetAssignments (fst (updateAsset db a name type)) = AssetAssignments db"
  by (simp add: updateAsset_def)

lemma rows_deleteAssetRow:
  "AssetAssignments (fst (deleteAssetRow db a)) = AssetAssignments db"
  by (simp add: deleteAssetRow_def Let_def)

lemma constraints_same_rows:
  "AssetAssignments db' = AssetAssignments db \<Longrightarrow> constraints_hold db \<Longrightarrow> constraints_hold db'"
  by (simp add: constraints_hold_def)

lemma constraints_insertAssignment:
  assumes "constraints_hold db"
  shows "constraints_hold (fst (insertAssignment db a e t r))"
  using assms
  by (simp add: insertAssignment_def Let_def constraints_hold_def)

lemma filter_hit_map:
  "filter P (map (\<lambda>row. if P row then f row else row) rows) = map f (filter P rows)"
  if "\<And>row. P row \<Longrightarrow> P (f row)"
  using that by (induction rows) auto

lemma constraints_updateAssignment:
  assumes "constraints_hold db"
  shows "constraints_hold (fst (updateAssignment db i a e t r))"
proof -
  let ?hit = "\<lambda>row. AssignmentId row = i"
  let ?new = "\<lambda>row. row\<lparr>aa_AssetId := a, aa_EmployeeId := e, AssignedAt := t, ReturnedAt := r\<rparr>"
  let ?rows = "map (\<lambda>row. if ?hit row then ?new row else row) (AssetAssignments db)"
  have "list_all CK_ReturnedAfterAssigned ?rows"
    if "list_all CK_ReturnedAfterAssigned (filter ?hit ?rows)"
  proof -
    have "CK_ReturnedAfterAssigned x" if x: "x \<in> set ?rows" for x
    proof (cases "?hit x")
      case True
      with x have "x \<in> set (filter ?hit ?rows)" by simp
      with \<open>list_all CK_ReturnedAfterAssigned (filter ?hit ?rows)\<close> show ?thesis
        unfolding list_all_iff by blast
    next
      case False
      with x have "x \<in> set (AssetAssignments db)" by (auto split: if_splits)
      with assms show ?thesis by (simp add: constraints_hold_def list_all_iff)
    qed
    then show ?thesis unfolding list_all_iff by blast
  qed
  with assms show ?thesis
    by (simp add: updateAssignment_def Let_def constraints_hold_def)
qed

lemma distinct_map_filter_sub:
  "distinct (map f (filter P xs)) \<Longrightarrow> distinct (map f (filter (\<lambda>x. P x \<and> Q x) xs))"
proof -
  assume "distinct (map f (filter P xs))"
  then have "distinct (map f (filter Q (filter P xs)))" by (rule distinct_map_filter)
  then show ?thesis by (simp add: conj_commute)
qed

lemma active_after_return:
  "filter isActive (map (\<lambda>row. if AssignmentId row = i \<and> ReturnedAt row = None
                                 then row\<lparr>ReturnedAt := Some now\<rparr> else row) rows)
   = filter (\<lambda>row. isActive row \<and> AssignmentId row \<noteq> i) rows"
  by (induction rows) (auto simp: isActive_def)

lemma constraints_updateReturnedAt:
  assumes "constraints_hold db"
  shows "constraints_hold (fst (updateReturnedAt db i now))"
proof (cases "list_all (\<lambda>row. AssignedAt row \<le> now)
    (filter (\<lambda>row. AssignmentId row = i \<and> ReturnedAt row = None) (AssetAssignments db))")
  case False
  with assms show ?thesis by (simp add: updateReturnedAt_def Let_def)
next
  case True
  let ?rows = "map (\<lambda>row. if AssignmentId row = i \<and> ReturnedAt row = None
                          then row\<lparr>ReturnedAt := Some now\<rparr> else row) (AssetAssignments db)"
  from True have fst: "AssetAssignments (fst (updateReturnedAt db i now)) = ?rows"
    by (simp add: updateReturnedAt_def Let_def)
  from assms have "distinct (map aa_AssetId (filter isActive (AssetAssignments db)))"
    by (simp add: constraints_hold_def UQ_OneAssetOneEmployee_def)
  then have uq: "UQ_OneAssetOneEmployee ?rows"
    unfolding UQ_OneAssetOneEmployee_def active_after_return
    by (rule distinct_map_filter_sub)
  have "CK_ReturnedAfterAssigned x" if "x \<in> set ?rows" for x
  proof -
    from that obtain row where row: "row \<in> set (AssetAssignments db)"
      and x: "x = (if AssignmentId row = i \<and> ReturnedAt row = None
                   then row\<lparr>ReturnedAt := Some now\<rparr> else row)"
      by auto
    show ?thesis
    proof (cases "AssignmentId row = i \<and> ReturnedAt row = None")
      case True
      with row \<open>list_all _ _\<close> have "AssignedAt row \<le> now"
        unfolding list_all_iff by simp
      with True x show ?thesis by (simp add: CK_ReturnedAfterAssigned_def)
    next
      case False
      with x row assms show ?thesis by (simp add: constraints_hold_def list_all_iff)
    qed
  qed
  then have "list_all CK_ReturnedAfterAssigned ?rows" unfolding list_all_iff by blast
  with uq fst show ?thesis by (simp add: constraints_hold_def)
qed

lemma constraints_deleteAssignments:
  assumes "constraints_hold db"
  shows "constraints_hold (fst (deleteAssignmentsOfAsset db a))"
proof -
  let ?rows = "filter (\<lambda>row. aa_AssetId row \<noteq> a) (AssetAssignments db)"
  from assms have "distinct (map aa_AssetId (filter isActive (AssetAssignments db)))"
    by (simp add: constraints_hold_def UQ_OneAssetOneEmployee_def)
  then have "distinct (map aa_AssetId (filter (\<lambda>row. isActive row \<and> aa_AssetId row \<noteq> a) (AssetAssignments db)))"
    by (rule distinct_map_filter_sub)
  then have "UQ_OneAssetOneEmployee ?rows"
    by (simp add: UQ_OneAssetOneEmployee_def conj_commute)
  moreover from assms have "list_all CK_ReturnedAfterAssigned ?rows"
    by (simp add: constraints_hold_def list_all_iff)
  ultimately show ?thesis
    by (simp add: deleteAssignmentsOfAsset_def constraints_hold_def)
qed

text \<open>What a handler leaves behind is what its statements leave behind.\<close>

lemma fst_sp_AssignAsset_steps:
  "fst (sp_AssignAsset_steps seen db a e now) = db
   \<or> fst (sp_AssignAsset_steps seen db a e now) = fst (insertAssignment db a e now None)"
  by (cases "insertAssignment db a e now None")
     (auto simp: sp_AssignAsset_steps_def split: sum.splits)

lemma fst_post_assignments_valid:
  "isSqlInt a \<Longrightarrow> isSqlInt e \<Longrightarrow>
   fst (post_assignments_steps seen db a e now) = fst (sp_AssignAsset_steps seen db a e now)"
  by (cases "sp_AssignAsset_steps seen db a e now")
     (auto simp: post_assignments_steps_def split: sum.splits)

lemma fst_post_assignments_steps:
  "fst (post_assignments_steps seen db a e now) = db
   \<or> fst (post_assignments_steps seen db a e now) = fst (insertAssignment db a e now None)"
proof (cases "isSqlInt a \<and> isSqlInt e")
  case True
  then show ?thesis
    using fst_sp_AssignAsset_steps[of seen db a e now] by (simp add: fst_post_assignments_valid)
next
  case False
  then show ?thesis by (auto simp: post_assignments_steps_def)
qed

lemma fst_post_return_valid:
  "isSqlInt i \<Longrightarrow> fst (post_return db i now) = fst (updateReturnedAt db i now)"
  by (cases "updateReturnedAt db i now")
     (auto simp: post_return_def sp_ReturnAsset_def split: sum.splits)

lemma fst_post_return:
  "fst (post_return db i now) = db
   \<or> fst (post_return db i now) = fst (updateReturnedAt db i now)"
proof (cases "isSqlInt i")
  case True
  then show ?thesis by (simp add: fst_post_return_valid)
next
  case False
  then show ?thesis by (simp add: post_return_def)
qed

lemma fst_delete_asset:
  "fst (delete_asset db a) = db
   \<or> fst (delete_asset db a) = fst (deleteAssetRow (fst (deleteAssignmentsOfAsset db a)) a)"
  by (cases "deleteAssetRow (fst (deleteAssignmentsOfAsset db a)) a")
     (auto simp: delete_asset_def deleteAssignmentsOfAsset_def split: sum.splits)

lemma fst_post_assets:
  assumes "post_assets_steps seen clock db name type now = Some (db', resp)"
  shows "db' = db \<or> (\<exists>serial. db' = fst (insertAsset db name type serial now))"
proof (cases "name = [] \<or> type = []")
  case True
  with assms show ?thesis by (auto simp: post_assets_steps_def)
next
  case False
  show ?thesis
  proof (cases "generateSerialNumber seen clock 0 type")
    case None
    with assms False show ?thesis by (simp add: post_assets_steps_def)
  next
    case (Some r)
    show ?thesis
    proof (cases r)
      case (Inl err)
      with Some assms False show ?thesis by (simp add: post_assets_steps_def)
    next
      case (Inr serial)
      with Some assms False have "db' = fst (insertAsset db name type (Some serial) now)"
        by (cases "insertAsset db name type (Some serial) now")
           (auto simp: post_assets_steps_def split: sum.splits)
      then show ?thesis by blast
    qed
  qed
qed

lemma reachable_constraints: "reachable db \<Longrightarrow> constraints_hold db"
proof (induction rule: reachable.induct)
  case r_empty
  show ?case by (simp add: constraints_hold_def emptyDb_def UQ_OneAssetOneEmployee_def)
next
  case (r_insertEmployee db name email pos now)
  from r_insertEmployee.IH show ?case by (rule constraints_same_rows[OF rows_insertEmployee])
next
  case (r_insertAsset db name type serial now)
  from r_insertAsset.IH show ?case by (rule constraints_same_rows[OF rows_insertAsset])
next
  case (r_updateAsset db a name type)
  from r_updateAsset.IH show ?case by (rule constraints_same_rows[OF rows_updateAsset])
next
  case (r_insertAssignment db a e t r)
  from r_insertAssignment.IH show ?case by (rule constraints_insertAssignment)
next
  case (r_updateAssignment db i a e t r)
  from r_updateAssignment.IH show ?case by (rule constraints_updateAssignment)
next
  case (r_updateReturnedAt db i now)
  from r_updateReturnedAt.IH show ?case by (rule constraints_updateReturnedAt)
next
  case (r_deleteAssignments db a)
  from r_deleteAssignments.IH show ?case by (rule constraints_deleteAssignments)
next
  case (r_deleteAssetRow db a)
  from r_deleteAssetRow.IH show ?case by (rule constraints_same_rows[OF rows_deleteAssetRow])
next
  case (r_Assign db a e now)
  with fst_post_assignments_steps[of db db a e now] r_Assign.IH show ?case
    by (auto simp: post_assignments_def intro: constraints_insertAssignment)
next
  case (r_AssignRacing db seen a e now)
  with fst_post_assignments_steps[of seen db a e now] show ?case
    by (auto intro: constraints_insertAssignment)
next
  case (r_Return db i now)
  with fst_post_return[of db i now] show ?case
    by (auto intro: constraints_updateReturnedAt)
next
  case (r_DeleteAsset db a)
  have "constraints_hold (fst (deleteAssetRow (fst (deleteAssignmentsOfAsset db a)) a))"
    by (rule constraints_same_rows[OF rows_deleteAssetRow])
       (rule constraints_deleteAssignments[OF r_DeleteAsset.IH])
  with fst_delete_asset[of db a] r_DeleteAsset.IH show ?case
    by auto
next
  case (r_CreateAsset db seen clock name type now db' resp)
  from fst_post_assets[OF r_CreateAsset.hyps(2)] r_CreateAsset.IH show ?case
    by (auto intro: constraints_same_rows[OF rows_insertAsset])
qed

lemma distinct_key_count:
  "distinct (map f ys) \<Longrightarrow> length (filter (\<lambda>y. f y = a) ys) \<le> 1"
proof (induction ys)
  case Nil then show ?case by simp
next
  case (Cons y ys)
  show ?case
  proof (cases "f y = a")
    case True
    with Cons.prems have "a \<notin> f ` set ys" by simp
    then have "filter (\<lambda>y. f y = a) ys = []"
      unfolding filter_empty_conv by blast
    with True show ?thesis by simp
  next
    case False
    with Cons show ?thesis by simp
  qed
qed

lemma UQ_activeCount: "UQ_OneAssetOneEmployee (AssetAssignments db) \<Longrightarrow> activeCount db a \<le> 1"
proof -
  assume "UQ_OneAssetOneEmployee (AssetAssignments db)"
  then have "length (filter (\<lambda>y. aa_AssetId y = a) (filter isActive (AssetAssignments db))) \<le> 1"
    unfolding UQ_OneAssetOneEmployee_def by (rule distinct_key_count)
  then show ?thesis
    by (simp add: activeCount_def activeOfAsset_def isActive_def conj_commute)
qed

lemma insert_free:
  assumes "constraints_hold db"
    and "a \<in> set (map AssetId (Assets db))"
    and "e \<in> set (map EmployeeId (Employees db))"
    and "activeOfAsset db a = []"
  shows "insertAssignment db a e t None =
    (db\<lparr>identAssignments := identAssignments db + 1,
        AssetAssignments := AssetAssignments db @
          [\<lparr>AssignmentId = identAssignments db + 1, aa_AssetId = a, aa_EmployeeId = e,
            AssignedAt = t, ReturnedAt = None\<rparr>]\<rparr>, Inr 1)"
proof -
  from assms(4) have "a \<notin> set (map aa_AssetId (filter isActive (AssetAssignments db)))"
    by (auto simp: activeOfAsset_def isActive_def filter_empty_conv)
  with assms(1) have "UQ_OneAssetOneEmployee (AssetAssignments db @
          [\<lparr>AssignmentId = identAssignments db + 1, aa_AssetId = a, aa_EmployeeId = e,
            AssignedAt = t, ReturnedAt = None\<rparr>])"
    by (simp add: constraints_hold_def UQ_OneAssetOneEmployee_def isActive_def)
  with assms(2,3) show ?thesis
    by (simp add: insertAssignment_def Let_def CK_ReturnedAfterAssigned_def
        FK_Asset_def FK_Employee_def)
qed

lemma insert_taken:
  assumes "a \<in> set (map AssetId (Assets db))"
    and "e \<in> set (map EmployeeId (Employees db))"
    and "activeOfAsset db a \<noteq> []"
  shows "insertAssignment db a e t None =
    (db\<lparr>identAssignments := identAssignments db + 1\<rparr>,
     Inl (DuplicateKeyIndex ''dbo.AssetAssignments'' ''UQ_OneAssetOneEmployee''))"
proof -
  from assms(3) obtain row where "row \<in> set (AssetAssignments db)"
    and "aa_AssetId row = a" and "ReturnedAt row = None"
    by (auto simp: activeOfAsset_def filter_empty_conv)
  then have "a \<in> set (map aa_AssetId (filter isActive (AssetAssignments db)))"
    by (force simp: isActive_def)
  then have "\<not> UQ_OneAssetOneEmployee (AssetAssignments db @
          [\<lparr>AssignmentId = identAssignments db + 1, aa_AssetId = a, aa_EmployeeId = e,
            AssignedAt = t, ReturnedAt = None\<rparr>])"
    by (simp add: UQ_OneAssetOneEmployee_def isActive_def)
  with assms(1,2) show ?thesis
    by (simp add: insertAssignment_def Let_def CK_ReturnedAfterAssigned_def
        FK_Asset_def FK_Employee_def)
qed

lemma race_two_assigns:
  assumes "reachable db"
    and "a \<in> set (map AssetId (Assets db))"
    and "e1 \<in> set (map EmployeeId (Employees db))"
    and "e2 \<in> set (map EmployeeId (Employees db))"
    and "activeCount db a = 0"
  shows "let first = sp_AssignAsset_steps db db a e1 t1;
             overlapped = sp_AssignAsset_steps db (fst first) a e2 t2;
             afterwards = sp_AssignAsset_steps (fst first) (fst first) a e2 t2
         in snd first = Inr ''Asset assigned successfully''
            \<and> activeCount (fst first) a = 1
            \<and> snd overlapped =
                Inl (DuplicateKeyIndex ''dbo.AssetAssignments'' ''UQ_OneAssetOneEmployee'')
            \<and> AssetAssignments (fst overlapped) = AssetAssignments (fst first)
            \<and> afterwards = (fst first, Inr ''Asset already assigned'')"
proof -
  let ?row = "\<lparr>AssignmentId = identAssignments db + 1, aa_AssetId = a, aa_EmployeeId = e1,
            AssignedAt = t1, ReturnedAt = None\<rparr>"
  let ?db1 = "db\<lparr>identAssignments := identAssignments db + 1,
        AssetAssignments := AssetAssignments db @ [?row]\<rparr>"
  from assms(5) have none: "activeOfAsset db a = []" by (simp add: activeCount_def)
  have ins: "insertAssignment db a e1 t1 None = (?db1, Inr 1)"
    by (rule insert_free[OF reachable_constraints[OF assms(1)] assms(2,3) none])
  with none have first: "sp_AssignAsset_steps db db a e1 t1 = (?db1, Inr ''Asset assigned successfully'')"
    by (simp add: sp_AssignAsset_steps_def)
  from none have act1: "activeOfAsset ?db1 a = [?row]"
    by (simp add: activeOfAsset_def)
  then have cnt: "activeCount ?db1 a = 1" by (simp add: activeCount_def)
  from act1 have taken: "activeOfAsset ?db1 a \<noteq> []" by simp
  from assms(2) have a1: "a \<in> set (map AssetId (Assets ?db1))" by simp
  from assms(4) have e1: "e2 \<in> set (map EmployeeId (Employees ?db1))" by simp
  have "insertAssignment ?db1 a e2 t2 None =
      (?db1\<lparr>identAssignments := identAssignments ?db1 + 1\<rparr>,
       Inl (DuplicateKeyIndex ''dbo.AssetAssignments'' ''UQ_OneAssetOneEmployee''))"
    by (rule insert_taken[OF a1 e1 taken])
  with none have over: "sp_AssignAsset_steps db ?db1 a e2 t2 =
      (?db1\<lparr>identAssignments := identAssignments ?db1 + 1\<rparr>,
       Inl (DuplicateKeyIndex ''dbo.AssetAssignments'' ''UQ_OneAssetOneEmployee''))"
    by (simp add: sp_AssignAsset_steps_def)
  from taken have after: "sp_AssignAsset_steps ?db1 ?db1 a e2 t2 = (?db1, Inr ''Asset already assigned'')"
    by (simp add: sp_AssignAsset_steps_def)
  show ?thesis
    unfolding Let_def first fst_conv snd_conv over after
    using cnt by simp
qed

lemma reachable_ledgerDb: "reachable ledgerDb"
  unfolding ledgerDb_def
  by (rule r_insertEmployee, rule r_insertEmployee, rule r_insertAsset, rule r_empty)

lemma reachable_assignedDb: "reachable assignedDb"
  unfolding assignedDb_def by (rule r_Assign, rule reachable_ledgerDb)

lemma reachable_returnedDb: "reachable returnedDb"
  unfolding returnedDb_def by (rule r_Return, rule reachable_assignedDb)

text \<open>
  Claim C1. In every reachable database an asset has at most one assignment row with no
  return time. When two \<^verbatim>\<open>sp_AssignAsset\<close> calls for one free asset race, the first insert
  succeeds; the other call, whether its test ran before that insert (it then inserts and
  the filtered unique index refuses the row) or after it (it then inserts nothing), adds
  no row: exactly one of the two calls assigns the asset.
\<close>

theorem one_active_assignment_per_asset:
  "(reachable db \<longrightarrow> activeCount db a \<le> 1)
   \<and> (reachable db \<and> a \<in> set (map AssetId (Assets db))
        \<and> e1 \<in> set (map EmployeeId (Employees db))
        \<and> e2 \<in> set (map EmployeeId (Employees db))
        \<and> activeCount db a = 0 \<longrightarrow>
       (let first = sp_AssignAsset_steps db db a e1 t1;
            overlapped = sp_AssignAsset_steps db (fst first) a e2 t2;
            afterwards = sp_AssignAsset_steps (fst first) (fst first) a e2 t2
        in snd first = Inr ''Asset assigned successfully''
           \<and> activeCount (fst first) a = 1
           \<and> snd overlapped =
               Inl (DuplicateKeyIndex ''dbo.AssetAssignments'' ''UQ_OneAssetOneEmployee'')
           \<and> AssetAssignments (fst overlapped) = AssetAssignments (fst first)
           \<and> afterwards = (fst first, Inr ''Asset already assigned'')))"
proof -
  have "activeCount db a \<le> 1" if "reachable db"
    using reachable_constraints[OF that] UQ_activeCount[of db a]
    unfolding constraints_hold_def by blast
  then show ?thesis
    using race_two_assigns[of db a e1 e2 t1 t2] by blast
qed

theorem one_active_assignment_per_asset_witness:
  "activeCount assignedDb 1 \<le> 1
   \<and> (let first = sp_AssignAsset_steps ledgerDb ledgerDb 1 1 5;
           overlapped = sp_AssignAsset_steps ledgerDb (fst first) 1 2 6;
           afterwards = sp_AssignAsset_steps (fst first) (fst first) 1 2 6
       in snd first = Inr ''Asset assigned successfully''
          \<and> activeCount (fst first) 1 = 1
          \<and> snd overlapped =
              Inl (DuplicateKeyIndex ''dbo.AssetAssignments'' ''UQ_OneAssetOneEmployee'')
          \<and> AssetAssignments (fst overlapped) = AssetAssignments (fst first)
          \<and> afterwards = (fst first, Inr ''Asset already assigned''))"
proof -
  have a: "1 \<in> set (map AssetId (Assets ledgerDb))" by code_simp
  have e1: "1 \<in> set (map EmployeeId (Employees ledgerDb))" by code_simp
  have e2: "2 \<in> set (map EmployeeId (Employees ledgerDb))" by code_simp
  have c: "activeCount ledgerDb 1 = 0" by code_simp
  from one_active_assignment_per_asset[of assignedDb 1 1 1 0 0] reachable_assignedDb
  have "activeCount assignedDb 1 \<le> 1" by blast
  moreover from one_active_assignment_per_asset[of ledgerDb 1 1 2 5 6]
    reachable_ledgerDb a e1 e2 c
  have "(let first = sp_AssignAsset_steps ledgerDb ledgerDb 1 1 5;
           overlapped = sp_AssignAsset_steps ledgerDb (fst first) 1 2 6;
           afterwards = sp_AssignAsset_steps (fst first) (fst first) 1 2 6
       in snd first = Inr ''Asset assigned successfully''
          \<and> activeCount (fst first) 1 = 1
          \<and> snd overlapped =
              Inl (DuplicateKeyIndex ''dbo.AssetAssignments'' ''UQ_OneAssetOneEmployee'')
          \<and> AssetAssignments (fst overlapped) = AssetAssignments (fst first)
          \<and> afterwards = (fst first, Inr ''Asset already assigned''))" by blast
  ultimately show ?thesis by blast
qed


lemma delete_asset_free:
  assumes "isSqlInt a" and "activeOfAsset db a = []"
  shows "delete_asset db a =
    (db\<lparr>AssetAssignments := filter (\<lambda>row. aa_AssetId row \<noteq> a) (AssetAssignments db),
        Assets := filter (\<lambda>x. AssetId x \<noteq> a) (Assets db)\<rparr>,
     if filter (\<lambda>x. AssetId x = a) (Assets db) = []
     then \<lparr>status = 404, success = False, message = ''Asset not found'', data = None\<rparr>
     else \<lparr>status = 200, success = True, message = ''Asset deleted successfully'', data = None\<rparr>)"
  using assms
  by (simp add: delete_asset_def deleteAssignmentsOfAsset_def deleteAssetRow_def Let_def)

lemma message_assetId:
  "sql_message (ParameterInvalid ''assetId'') =
     ''Validation failed for parameter 'assetId'. Value must be between -2147483648 and 2147483647, inclusive.''"
  by simp

text \<open>
  Claim C8, for a request running alone with an asset id that fits the \<^verbatim>\<open>INT\<close> column.
  \<^verbatim>\<open>DELETE /api/assets/:assetId\<close> on an asset with an assignment that has no return time
  answers 400 with the in-use message and changes nothing. With no such assignment it
  removes every assignment row of the asset and the asset row, leaves all other rows as
  they were, and answers 200, or 404 when there was no such asset; afterwards neither the
  asset nor a row of its history is stored. An id outside the 32-bit range, which no row
  of the tables can carry, is refused by the driver before any statement is sent: the
  answer is 400 with the driver's message and nothing changes.
\<close>

theorem delete_asset_contract:
  "(isSqlInt assetId \<and> activeOfAsset db assetId \<noteq> [] \<longrightarrow>
      delete_asset db assetId =
        (db, \<lparr>status = 400, success = False,
              message = ''Cannot delete asset. It is currently assigned to an employee. Return it first.'',
              data = None\<rparr>))
   \<and> (isSqlInt assetId \<and> activeOfAsset db assetId = [] \<longrightarrow>
        (let db' = fst (delete_asset db assetId); answer = snd (delete_asset db assetId)
         in AssetAssignments db' = filter (\<lambda>row. aa_AssetId row \<noteq> assetId) (AssetAssignments db)
            \<and> Assets db' = filter (\<lambda>x. AssetId x \<noteq> assetId) (Assets db)
            \<and> Employees db' = Employees db
            \<and> assetId \<notin> set (map aa_AssetId (AssetAssignments db'))
            \<and> assetId \<notin> set (map AssetId (Assets db'))
            \<and> status answer = (if assetId \<in> set (map AssetId (Assets db)) then 200 else 404)
            \<and> success answer = (assetId \<in> set (map AssetId (Assets db)))))
   \<and> (assetId < - 2147483648 \<or> 2147483647 < assetId \<longrightarrow>
        delete_asset db assetId =
          (db, \<lparr>status = 400, success = False,
                message = ''Validation failed for parameter 'assetId'. Value must be between -2147483648 and 2147483647, inclusive.'',
                data = None\<rparr>))"
proof -
  have inuse: "delete_asset db assetId =
        (db, \<lparr>status = 400, success = False,
              message = ''Cannot delete asset. It is currently assigned to an employee. Return it first.'',
              data = None\<rparr>)" if "isSqlInt assetId" and "activeOfAsset db assetId \<noteq> []"
    using that by (simp add: delete_asset_def)
  have gone: "filter (\<lambda>x. AssetId x = assetId) (Assets db) = [] \<longleftrightarrow>
        assetId \<notin> set (map AssetId (Assets db))"
    by (auto simp: filter_empty_conv)
  have free: "(let db' = fst (delete_asset db assetId); answer = snd (delete_asset db assetId)
         in AssetAssignments db' = filter (\<lambda>row. aa_AssetId row \<noteq> assetId) (AssetAssignments db)
            \<and> Assets db' = filter (\<lambda>x. AssetId x \<noteq> assetId) (Assets db)
            \<and> Employees db' = Employees db
            \<and> assetId \<notin> set (map aa_AssetId (AssetAssignments db'))
            \<and> assetId \<notin> set (map AssetId (Assets db'))
            \<and> status answer = (if assetId \<in> set (map AssetId (Assets db)) then 200 else 404)
            \<and> success answer = (assetId \<in> set (map AssetId (Assets db))))"
    if "isSqlInt assetId" and "activeOfAsset db assetId = []"
    unfolding Let_def delete_asset_free[OF that] fst_conv snd_conv gone
    by auto
  have refused: "delete_asset db assetId =
          (db, \<lparr>status = 400, success = False,
                message = ''Validation failed for parameter 'assetId'. Value must be between -2147483648 and 2147483647, inclusive.'',
                data = None\<rparr>)"
    if "assetId < - 2147483648 \<or> 2147483647 < assetId"
  proof -
    from that have "\<not> isSqlInt assetId" unfolding isSqlInt_def by arith
    then have "delete_asset db assetId =
          (db, \<lparr>status = 400, success = False,
                message = sql_message (ParameterInvalid ''assetId''), data = None\<rparr>)"
      by (simp only: delete_asset_def if_True not_False_eq_True)
    then show ?thesis by (simp only: message_assetId)
  qed
  from inuse free refused show ?thesis by blast
qed

theorem delete_asset_contract_witness:
  "delete_asset assignedDb 1 =
        (assignedDb, \<lparr>status = 400, success = False,
              message = ''Cannot delete asset. It is currently assigned to an employee. Return it first.'',
              data = None\<rparr>)
   \<and> (let db' = fst (delete_asset returnedDb 1); answer = snd (delete_asset returnedDb 1)
         in AssetAssignments db' = filter (\<lambda>row. aa_AssetId row \<noteq> 1) (AssetAssignments returnedDb)
            \<and> Assets db' = filter (\<lambda>x. AssetId x \<noteq> 1) (Assets returnedDb)
            \<and> Employees db' = Employees returnedDb
            \<and> 1 \<notin> set (map aa_AssetId (AssetAssignments db'))
            \<and> 1 \<notin> set (map AssetId (Assets db'))
            \<and> status answer = 200
            \<and> success answer = True)
   \<and> delete_asset returnedDb 2147483648 =
        (returnedDb, \<lparr>status = 400, success = False,
              message = ''Validation failed for parameter 'assetId'. Value must be between -2147483648 and 2147483647, inclusive.'',
              data = None\<rparr>)"
proof -
  have v: "isSqlInt 1" by (simp add: isSqlInt_def)
  have a: "activeOfAsset assignedDb 1 \<noteq> []" by code_simp
  have r: "activeOfAsset returnedDb 1 = []" by code_simp
  have m: "1 \<in> set (map AssetId (Assets returnedDb))" by code_simp
  have big: "(2147483647::int) < 2147483648" by simp
  from delete_asset_contract[of 1 assignedDb] v a have 1: "delete_asset assignedDb 1 =
        (assignedDb, \<lparr>status = 400, success = False,
              message = ''Cannot delete asset. It is currently assigned to an employee. Return it first.'',
              data = None\<rparr>)" by blast
  from delete_asset_contract[of 2147483648 returnedDb] big have 2:
    "delete_asset returnedDb 2147483648 =
        (returnedDb, \<lparr>status = 400, success = False,
              message = ''Validation failed for parameter 'assetId'. Value must be between -2147483648 and 2147483647, inclusive.'',
              data = None\<rparr>)" by blast
  from delete_asset_contract[of 1 returnedDb] v r m 1 2 show ?thesis
    unfolding Let_def by auto
qed

text \<open>
  Claim C7. In every reachable database each assignment row has no return time or one
  that is not before its assignment time. The store refuses the writes that would break
  this: an insert or an update of a row with a return time before the assignment time,
  and the update of \<^verbatim>\<open>sp_ReturnAsset\<close> at a time before the row's assignment time, all
  raise the check constraint's error and leave the rows unchanged.
\<close>

theorem returned_not_before_assigned:
  "(reachable db \<longrightarrow>
      list_all (\<lambda>row. case ReturnedAt row of None \<Rightarrow> True | Some t \<Rightarrow> AssignedAt row \<le> t)
               (AssetAssignments db))
   \<and> (r < t \<longrightarrow>
        snd (insertAssignment db a e t (Some r)) =
          Inl (ConstraintConflict ''INSERT'' ''CHECK'' ''CK_ReturnedAfterAssigned'')
        \<and> AssetAssignments (fst (insertAssignment db a e t (Some r))) = AssetAssignments db)
   \<and> (r < t \<and> i \<in> set (map AssignmentId (AssetAssignments db)) \<longrightarrow>
        updateAssignment db i a e t (Some r) =
          (db, Inl (ConstraintConflict ''UPDATE'' ''CHECK'' ''CK_ReturnedAfterAssigned'')))
   \<and> ((\<exists>row \<in> set (AssetAssignments db).
          AssignmentId row = i \<and> ReturnedAt row = None \<and> now < AssignedAt row) \<longrightarrow>
        sp_ReturnAsset db i now =
          (db, Inl (ConstraintConflict ''UPDATE'' ''CHECK'' ''CK_ReturnedAfterAssigned'')))"
proof -
  have 1: "list_all (\<lambda>row. case ReturnedAt row of None \<Rightarrow> True | Some t \<Rightarrow> AssignedAt row \<le> t)
               (AssetAssignments db)" if "reachable db"
    using reachable_constraints[OF that]
    by (simp add: constraints_hold_def CK_ReturnedAfterAssigned_def[abs_def])
  have 2: "snd (insertAssignment db a e t (Some r)) =
          Inl (ConstraintConflict ''INSERT'' ''CHECK'' ''CK_ReturnedAfterAssigned'')
        \<and> AssetAssignments (fst (insertAssignment db a e t (Some r))) = AssetAssignments db"
    if "r < t"
    using that by (simp add: insertAssignment_def Let_def CK_ReturnedAfterAssigned_def)
  have 3: "updateAssignment db i a e t (Some r) =
          (db, Inl (ConstraintConflict ''UPDATE'' ''CHECK'' ''CK_ReturnedAfterAssigned''))"
    if "r < t" and "i \<in> set (map AssignmentId (AssetAssignments db))"
  proof -
    from that(2) obtain row where "row \<in> set (AssetAssignments db)" and "AssignmentId row = i"
      by auto
    then have ne: "filter (\<lambda>row. AssignmentId row = i) (AssetAssignments db) \<noteq> []"
      by (auto simp: filter_empty_conv)
    let ?new = "\<lambda>row. row\<lparr>aa_AssetId := a, aa_EmployeeId := e, AssignedAt := t, ReturnedAt := Some r\<rparr>"
    have "filter (\<lambda>row. AssignmentId row = i)
            (map (\<lambda>row. if AssignmentId row = i then ?new row else row) (AssetAssignments db))
          = map ?new (filter (\<lambda>row. AssignmentId row = i) (AssetAssignments db))"
      by (rule filter_hit_map) simp
    moreover have "\<not> list_all CK_ReturnedAfterAssigned
          (map ?new (filter (\<lambda>row. AssignmentId row = i) (AssetAssignments db)))"
      using ne that(1)
      by (cases "filter (\<lambda>row. AssignmentId row = i) (AssetAssignments db)")
         (simp_all add: CK_ReturnedAfterAssigned_def)
    ultimately have "\<not> list_all CK_ReturnedAfterAssigned
      (filter (\<lambda>row. AssignmentId row = i)
        (map (\<lambda>row. if AssignmentId row = i
                     then row\<lparr>aa_AssetId := a, aa_EmployeeId := e, AssignedAt := t, ReturnedAt := Some r\<rparr>
                     else row) (AssetAssignments db)))"
      by simp
    then show ?thesis by (simp add: updateAssignment_def Let_def)
  qed
  have 4: "sp_ReturnAsset db i now =
          (db, Inl (ConstraintConflict ''UPDATE'' ''CHECK'' ''CK_ReturnedAfterAssigned''))"
    if "\<exists>row \<in> set (AssetAssignments db).
          AssignmentId row = i \<and> ReturnedAt row = None \<and> now < AssignedAt row"
  proof -
    from that have "\<not> list_all (\<lambda>row. AssignedAt row \<le> now)
      (filter (\<lambda>row. AssignmentId row = i \<and> ReturnedAt row = None) (AssetAssignments db))"
      by (force simp: list_all_iff)
    then show ?thesis by (simp add: sp_ReturnAsset_def updateReturnedAt_def Let_def)
  qed
  from 1 2 3 4 show ?thesis by blast
qed

theorem returned_not_before_assigned_witness:
  "list_all (\<lambda>row. case ReturnedAt row of None \<Rightarrow> True | Some t \<Rightarrow> AssignedAt row \<le> t)
               (AssetAssignments returnedDb)
   \<and> AssetAssignments returnedDb \<noteq> []
   \<and> snd (insertAssignment ledgerDb 1 1 5 (Some 3)) =
          Inl (ConstraintConflict ''INSERT'' ''CHECK'' ''CK_ReturnedAfterAssigned'')
   \<and> AssetAssignments (fst (insertAssignment ledgerDb 1 1 5 (Some 3))) = AssetAssignments ledgerDb
   \<and> updateAssignment assignedDb 1 1 1 5 (Some 3) =
          (assignedDb, Inl (ConstraintConflict ''UPDATE'' ''CHECK'' ''CK_ReturnedAfterAssigned''))
   \<and> sp_ReturnAsset assignedDb 1 3 =
          (assignedDb, Inl (ConstraintConflict ''UPDATE'' ''CHECK'' ''CK_ReturnedAfterAssigned''))"
proof -
  have ne: "AssetAssignments returnedDb \<noteq> []" by code_simp
  have i: "1 \<in> set (map AssignmentId (AssetAssignments assignedDb))" by code_simp
  have ex: "\<exists>row \<in> set (AssetAssignments assignedDb).
          AssignmentId row = 1 \<and> ReturnedAt row = None \<and> 3 < AssignedAt row" by code_simp
  have lt: "(3::nat) < 5" by simp
  from returned_not_before_assigned[where db = returnedDb] reachable_returnedDb
  have a: "list_all (\<lambda>row. case ReturnedAt row of None \<Rightarrow> True | Some t \<Rightarrow> AssignedAt row \<le> t)
               (AssetAssignments returnedDb)" by blast
  from returned_not_before_assigned[where db = ledgerDb and r = 3 and t = 5 and a = 1 and e = 1] lt
  have b: "snd (insertAssignment ledgerDb 1 1 5 (Some 3)) =
          Inl (ConstraintConflict ''INSERT'' ''CHECK'' ''CK_ReturnedAfterAssigned'')
     \<and> AssetAssignments (fst (insertAssignment ledgerDb 1 1 5 (Some 3))) = AssetAssignments ledgerDb"
    by blast
  from returned_not_before_assigned[where db = assignedDb and r = 3 and t = 5 and a = 1
      and e = 1 and i = 1 and now = 3] lt i ex
  have c: "updateAssignment assignedDb 1 1 1 5 (Some 3) =
          (assignedDb, Inl (ConstraintConflict ''UPDATE'' ''CHECK'' ''CK_ReturnedAfterAssigned''))
     \<and> sp_ReturnAsset assignedDb 1 3 =
          (assignedDb, Inl (ConstraintConflict ''UPDATE'' ''CHECK'' ''CK_ReturnedAfterAssigned''))"
    by blast
  from a ne b c show ?thesis by blast
qed

section \<open>Answers of the handlers\<close>

lemma insertAssignment_errors:
  assumes "snd (insertAssignment db a e t r) = Inl err"
  shows "err \<in> {ConstraintConflict ''INSERT'' ''CHECK'' ''CK_ReturnedAfterAssigned'',
                ConstraintConflict ''INSERT'' ''FOREIGN KEY'' ''FK_AssetAssignments_Assets'',
                ConstraintConflict ''INSERT'' ''FOREIGN KEY'' ''FK_AssetAssignments_Employees'',
                DuplicateKeyIndex ''dbo.AssetAssignments'' ''UQ_OneAssetOneEmployee''}"
  using assms by (auto simp: insertAssignment_def Let_def split: if_splits)

lemma insert_messages:
  assumes "snd (insertAssignment db a e t r) = Inl err"
  shows "\<not> includes_str (sql_message err) ''already assigned''"
proof -
  have "\<not> includes_str (sql_message (ConstraintConflict ''INSERT'' ''CHECK'' ''CK_ReturnedAfterAssigned'')) ''already assigned''"
    by code_simp
  moreover have "\<not> includes_str (sql_message (ConstraintConflict ''INSERT'' ''FOREIGN KEY'' ''FK_AssetAssignments_Assets'')) ''already assigned''"
    by code_simp
  moreover have "\<not> includes_str (sql_message (ConstraintConflict ''INSERT'' ''FOREIGN KEY'' ''FK_AssetAssignments_Employees'')) ''already assigned''"
    by code_simp
  moreover have "\<not> includes_str (sql_message (DuplicateKeyIndex ''dbo.AssetAssignments'' ''UQ_OneAssetOneEmployee'')) ''already assigned''"
    by code_simp
  ultimately show ?thesis using insertAssignment_errors[OF assms] by blast
qed


lemma validation_messages:
  "\<not> includes_str (sql_message (ParameterInvalid ''AssetId'')) ''already assigned''"
  "\<not> includes_str (sql_message (ParameterInvalid ''EmployeeId'')) ''already assigned''"
  by code_simp+

lemma assign_status:
  "status (snd (post_assignments_steps seen db a e now)) = 201
   \<or> status (snd (post_assignments_steps seen db a e now)) = 400"
proof (cases "isSqlInt a \<and> isSqlInt e")
  case False
  then show ?thesis
    using validation_messages
    by (auto simp: post_assignments_steps_def assignments_catch_def)
next
  case valid: True
  show ?thesis
  proof (cases "activeOfAsset seen a \<noteq> []")
    case True
    with valid show ?thesis by (simp add: post_assignments_steps_def sp_AssignAsset_steps_def)
  next
    case False
    show ?thesis
    proof (cases "insertAssignment db a e now None")
      case (Pair db' res)
      show ?thesis
      proof (cases res)
        case (Inl err)
        with Pair have "snd (insertAssignment db a e now None) = Inl err" by simp
        from insert_messages[OF this] Pair Inl False valid show ?thesis
          by (simp add: post_assignments_steps_def sp_AssignAsset_steps_def
              assignments_catch_def)
      next
        case (Inr n)
        with Pair False valid show ?thesis
          by (simp add: post_assignments_steps_def sp_AssignAsset_steps_def)
      qed
    qed
  qed
qed

lemma assign_never_409: "status (snd (post_assignments_steps seen db a e now)) \<noteq> 409"
  using assign_status[of seen db a e now] by auto

text \<open>
  Claim C2. On a free asset the request inserts one active row and answers 201 with it.
  At the database this leaves, where asset 1 is assigned to employee 1, a request to assign
  it to employee 2 inserts nothing and leaves the active row as it was, but it is
  answered 201 with \<^verbatim>\<open>success: true\<close> and the other employee's row as data:
  \<^verbatim>\<open>sp_AssignAsset\<close> only prints that the asset is assigned already, which raises nothing.
  No request to \<^verbatim>\<open>POST /api/assignments\<close> is ever answered 409, whatever the database
  and whenever its test ran.
\<close>

theorem assign_on_assigned_asset_answers_201:
  "post_assignments ledgerDb 1 1 5 =
     (assignedDb,
      \<lparr>status = 201, success = True, message = ''Asset assigned successfully'',
        data = Some (\<lparr>AssignmentId = 1, aa_AssetId = 1, aa_EmployeeId = 1, AssignedAt = 5,
                       ReturnedAt = None\<rparr>, ''John Smith'', ''MacBook Pro 16'')\<rparr>)
   \<and> activeOfAsset assignedDb 1 =
       [\<lparr>AssignmentId = 1, aa_AssetId = 1, aa_EmployeeId = 1, AssignedAt = 5, ReturnedAt = None\<rparr>]
   \<and> sp_AssignAsset assignedDb 1 2 6 = (assignedDb, Inr ''Asset already assigned'')
   \<and> post_assignments assignedDb 1 2 6 =
     (assignedDb,
      \<lparr>status = 201, success = True, message = ''Asset assigned successfully'',
        data = Some (\<lparr>AssignmentId = 1, aa_AssetId = 1, aa_EmployeeId = 1, AssignedAt = 5,
                       ReturnedAt = None\<rparr>, ''John Smith'', ''MacBook Pro 16'')\<rparr>)
   \<and> status (snd (post_assignments_steps seen db a e now)) \<noteq> 409"
proof -
  have "post_assignments ledgerDb 1 1 5 =
     (assignedDb,
      \<lparr>status = 201, success = True, message = ''Asset assigned successfully'',
        data = Some (\<lparr>AssignmentId = 1, aa_AssetId = 1, aa_EmployeeId = 1, AssignedAt = 5,
                       ReturnedAt = None\<rparr>, ''John Smith'', ''MacBook Pro 16'')\<rparr>)"
    by code_simp
  moreover have "activeOfAsset assignedDb 1 =
       [\<lparr>AssignmentId = 1, aa_AssetId = 1, aa_EmployeeId = 1, AssignedAt = 5, ReturnedAt = None\<rparr>]"
    by code_simp
  moreover have "sp_AssignAsset assignedDb 1 2 6 = (assignedDb, Inr ''Asset already assigned'')"
    by code_simp
  moreover have "post_assignments assignedDb 1 2 6 =
     (assignedDb,
      \<lparr>status = 201, success = True, message = ''Asset assigned successfully'',
        data = Some (\<lparr>AssignmentId = 1, aa_AssetId = 1, aa_EmployeeId = 1, AssignedAt = 5,
                       ReturnedAt = None\<rparr>, ''John Smith'', ''MacBook Pro 16'')\<rparr>)"
    by code_simp
  ultimately show ?thesis using assign_never_409[of seen db a e now] by blast
qed

text \<open>
  Claim C3, on assignment 1 of the same database. The first return sets the return time
  and is answered 200. The second changes no row, \<^verbatim>\<open>sp_ReturnAsset\<close> prints that the
  assignment is not found or already returned, and the request is answered 200 with
  \<^verbatim>\<open>success: true\<close> again; so is a return of assignment 42, which does not exist.
\<close>

theorem return_twice_answers_200:
  "post_return assignedDb 1 7 =
     (returnedDb,
      \<lparr>status = 200, success = True, message = ''Asset returned successfully'',
        data = Some \<lparr>AssignmentId = 1, aa_AssetId = 1, aa_EmployeeId = 1, AssignedAt = 5,
                      ReturnedAt = Some 7\<rparr>\<rparr>)
   \<and> sp_ReturnAsset returnedDb 1 8 =
       (returnedDb, Inr ''Assignment not found or already returned'')
   \<and> post_return returnedDb 1 8 =
     (returnedDb,
      \<lparr>status = 200, success = True, message = ''Asset returned successfully'',
        data = Some \<lparr>AssignmentId = 1, aa_AssetId = 1, aa_EmployeeId = 1, AssignedAt = 5,
                      ReturnedAt = Some 7\<rparr>\<rparr>)
   \<and> post_return returnedDb 42 8 =
     (returnedDb,
      \<lparr>status = 200, success = True, message = ''Asset returned successfully'',
        data = None\<rparr>)"
  by code_simp


section \<open>Serial numbers beyond 999 and the retry\<close>

lemma wide_proposed: "proposedSerial wideDb 2025 ''Laptop'' = Inr ''LA-2025-1000''"
  by code_simp

lemma wide_stored: "0 < countSerial wideDb ''LA-2025-1000''"
  by code_simp

text \<open>
  Claim C5, with the serials \<open>LA-2025-999\<close> and \<open>LA-2025-1000\<close> stored. Both match
  the pattern; the query orders them by their last three characters read as a number,
  999 and 0, and returns \<open>LA-2025-999\<close>; the proposal is \<open>LA-2025-1000\<close>, which is
  stored, and the call, running alone within the year, never returns. The numerically highest suffix is 1000 and the
  number after it 1001.
\<close>

theorem highest_suffix_by_last_three_characters:
  "matchingSerials wideDb ''LA-2025-%'' = [''LA-2025-999'', ''LA-2025-1000'']
   \<and> selectTopSerial wideDb ''LA-2025-%'' = Inr [''LA-2025-999'']
   \<and> proposedSerial wideDb 2025 ''Laptop'' = Inr ''LA-2025-1000''
   \<and> spec_nextNumber wideDb ''LA-2025-'' = 1001
   \<and> generateSerialNumber (alone wideDb) (inYear 2025) 0 ''Laptop'' = None"
proof -
  have "matchingSerials wideDb ''LA-2025-%'' = [''LA-2025-999'', ''LA-2025-1000'']"
    by code_simp
  moreover have "selectTopSerial wideDb ''LA-2025-%'' = Inr [''LA-2025-999'']"
    by code_simp
  moreover have "spec_nextNumber wideDb ''LA-2025-'' = 1001"
    by code_simp
  moreover note wide_proposed gen_collision[OF wide_proposed wide_stored]
  ultimately show ?thesis by blast
qed

section \<open>The retry under contention\<close>

text \<open>A budget that suffices gives what the call returns.\<close>

lemma budget_free:
  "proposedSerial (seen (2 * j)) (clock j) t = Inr s \<Longrightarrow> countSerial (seen (2 * j + 1)) s = 0 \<Longrightarrow>
   generateSerialNumber_budget (Suc b) seen clock j t = Some (Inr s)"
  by (simp add: selectCount_def)

lemma budget_error:
  "proposedSerial (seen (2 * j)) (clock j) t = Inl e \<Longrightarrow>
   generateSerialNumber_budget (Suc b) seen clock j t = Some (Inl e)"
  by simp

lemma budget_retry:
  "proposedSerial (seen (2 * j)) (clock j) t = Inr s \<Longrightarrow> 0 < countSerial (seen (2 * j + 1)) s \<Longrightarrow>
   generateSerialNumber_budget (Suc b) seen clock j t
     = generateSerialNumber_budget b seen clock (Suc j) t"
  by (simp add: selectCount_def)

lemma budget_sound:
  "generateSerialNumber_budget b seen clock j t = Some r \<Longrightarrow>
   generateSerialNumber seen clock j t = Some r"
proof (induction b arbitrary: j)
  case 0
  then show ?case by simp
next
  case (Suc b)
  show ?case
  proof (cases "proposedSerial (seen (2 * j)) (clock j) t")
    case (Inl e)
    have "generateSerialNumber seen clock j t = Some (Inl e)"
      using Inl by (rule gen_error[where seen = seen and clock = clock])
    moreover have "generateSerialNumber_budget (Suc b) seen clock j t = Some (Inl e)"
      using Inl by (rule budget_error[where seen = seen and clock = clock])
    ultimately show ?thesis using Suc.prems by simp
  next
    case (Inr s)
    show ?thesis
    proof (cases "0 < countSerial (seen (2 * j + 1)) s")
      case True
      have "generateSerialNumber_budget (Suc b) seen clock j t
          = generateSerialNumber_budget b seen clock (Suc j) t"
        using Inr True by (rule budget_retry[where seen = seen and clock = clock])
      with Suc.prems have "generateSerialNumber_budget b seen clock (Suc j) t = Some r"
        by simp
      then have "generateSerialNumber seen clock (Suc j) t = Some r" by (rule Suc.IH)
      moreover have "generateSerialNumber seen clock j t
          = generateSerialNumber seen clock (Suc j) t"
        using Inr True by (rule gen_retry[where seen = seen and clock = clock])
      ultimately show ?thesis by simp
    next
      case False
      then have z: "countSerial (seen (2 * j + 1)) s = 0" by simp
      have "generateSerialNumber_budget (Suc b) seen clock j t = Some (Inr s)"
        using Inr z by (rule budget_free[where seen = seen and clock = clock])
      with Suc.prems have "r = Inr s" by simp
      moreover have "generateSerialNumber seen clock j t = Some (Inr s)"
        using Inr z by (rule gen_free[where seen = seen and clock = clock])
      ultimately show ?thesis by simp
    qed
  qed
qed

lemma empty_proposed: "proposedSerial emptyDb 2025 ''Laptop'' = Inr ''LA-2025-001''"
  by code_simp

lemma empty_count: "countSerial emptyDb ''LA-2025-001'' = 0"
  by code_simp

lemma oneLaptop_count: "countSerial oneLaptop ''LA-2025-001'' = 1"
  by code_simp

lemma contended_proposed:
  "proposedSerial (contended k (2 * j)) (inYear 2025 j) ''Laptop'' = Inr ''LA-2025-001''"
proof -
  have "contended k (2 * j) = emptyDb" by (simp add: contended_def)
  moreover have "inYear 2025 j = 2025" by (simp add: inYear_def)
  ultimately show ?thesis using empty_proposed by simp
qed

lemma contended_taken:
  "j < k \<Longrightarrow> 0 < countSerial (contended k (2 * j + 1)) ''LA-2025-001''"
proof -
  assume "j < k"
  then have "contended k (2 * j + 1) = oneLaptop" by (simp add: contended_def)
  then show ?thesis using oneLaptop_count by simp
qed

lemma contended_free:
  "\<not> j < k \<Longrightarrow> countSerial (contended k (2 * j + 1)) ''LA-2025-001'' = 0"
proof -
  assume "\<not> j < k"
  then have "contended k (2 * j + 1) = emptyDb" by (simp add: contended_def)
  then show ?thesis using empty_count by simp
qed

lemma contended_exhausts:
  "b + j \<le> k \<Longrightarrow>
   generateSerialNumber_budget b (contended k) (inYear 2025) j ''Laptop'' = None"
proof (induction b arbitrary: j)
  case 0
  show ?case by simp
next
  case (Suc b)
  from Suc.prems have lt: "j < k" and le: "b + Suc j \<le> k" by simp_all
  have "generateSerialNumber_budget (Suc b) (contended k) (inYear 2025) j ''Laptop''
      = generateSerialNumber_budget b (contended k) (inYear 2025) (Suc j) ''Laptop''"
    by (rule budget_retry[where seen = "contended k" and clock = "inYear 2025" and j = j,
        OF contended_proposed contended_taken[OF lt]])
  also have "\<dots> = None" using le by (rule Suc.IH)
  finally show ?case .
qed

lemma contended_returns:
  "k - j = d \<Longrightarrow> j \<le> k \<Longrightarrow>
   generateSerialNumber_budget (Suc d) (contended k) (inYear 2025) j ''Laptop''
     = Some (Inr ''LA-2025-001'')"
proof (induction d arbitrary: j)
  case 0
  then have ge: "\<not> j < k" by simp
  show ?case
    by (rule budget_free[where seen = "contended k" and clock = "inYear 2025" and j = j,
        OF contended_proposed contended_free[OF ge]])
next
  case (Suc d)
  then have lt: "j < k" and d: "k - Suc j = d" and le: "Suc j \<le> k" by simp_all
  have "generateSerialNumber_budget (Suc (Suc d)) (contended k) (inYear 2025) j ''Laptop''
      = generateSerialNumber_budget (Suc d) (contended k) (inYear 2025) (Suc j) ''Laptop''"
    by (rule budget_retry[where seen = "contended k" and clock = "inYear 2025" and j = j,
        OF contended_proposed contended_taken[OF lt]])
  also have "\<dots> = Some (Inr ''LA-2025-001'')" using d le by (rule Suc.IH)
  finally show ?case .
qed

text \<open>
  Claim C4 fails: a retry with a budget of a thousand attempts gives up in a run in which
  the call collides a thousand times, starts its attempt 1001 and returns a serial. In
  each of the first thousand attempts another request has registered \<open>LA-2025-001\<close>
  between the two queries and deleted it again before the next attempt.
\<close>

theorem retry_unbounded_counterexample:
  "generateSerialNumber_budget 1000 (contended 1000) (inYear 2025) 0 ''Laptop'' = None
   \<and> generateSerialNumber (contended 1000) (inYear 2025) 0 ''Laptop''
       = Some (Inr ''LA-2025-001'')"
proof -
  have "generateSerialNumber_budget 1000 (contended 1000) (inYear 2025) 0 ''Laptop'' = None"
    by (rule contended_exhausts) simp
  moreover have "generateSerialNumber_budget (Suc 1000) (contended 1000) (inYear 2025) 0 ''Laptop''
      = Some (Inr ''LA-2025-001'')"
    by (rule contended_returns) simp_all
  then have "generateSerialNumber (contended 1000) (inYear 2025) 0 ''Laptop''
      = Some (Inr ''LA-2025-001'')"
    by (rule budget_sound)
  ultimately show ?thesis by blast
qed

text \<open>
  Claim C4 as amended. \<^verbatim>\<open>generateSerialNumber\<close> has no retry budget and no outcome for
  an exhausted one: each collision starts another attempt. Whenever some budget of
  attempts suffices for a call, the call returns what the retry with that budget
  returns. For every number \<open>k\<close> there is a run in which a budget of \<open>k\<close> attempts is
  exhausted and the call returns all the same: it collides \<open>k\<close> times, the serial it
  proposes being registered by another request between its two queries and deleted again
  before its next attempt, and returns \<open>LA-2025-001\<close> from attempt \<open>k + 1\<close>.
\<close>

theorem retry_without_budget:
  "(generateSerialNumber_budget b seen clock j assetType \<noteq> None \<longrightarrow>
      generateSerialNumber seen clock j assetType
        = generateSerialNumber_budget b seen clock j assetType)
   \<and> generateSerialNumber_budget k (contended k) (inYear 2025) 0 ''Laptop'' = None
   \<and> generateSerialNumber_budget (Suc k) (contended k) (inYear 2025) 0 ''Laptop''
       = Some (Inr ''LA-2025-001'')
   \<and> generateSerialNumber (contended k) (inYear 2025) 0 ''Laptop''
       = Some (Inr ''LA-2025-001'')"
proof -
  have 1: "generateSerialNumber seen clock j assetType
        = generateSerialNumber_budget b seen clock j assetType"
    if "generateSerialNumber_budget b seen clock j assetType \<noteq> None"
  proof -
    from that obtain r where r: "generateSerialNumber_budget b seen clock j assetType = Some r"
      by blast
    from budget_sound[OF r] r show ?thesis by simp
  qed
  have 2: "generateSerialNumber_budget k (contended k) (inYear 2025) 0 ''Laptop'' = None"
    by (rule contended_exhausts) simp
  have 3: "generateSerialNumber_budget (Suc k) (contended k) (inYear 2025) 0 ''Laptop''
       = Some (Inr ''LA-2025-001'')"
    by (rule contended_returns) simp_all
  from 3 have 4: "generateSerialNumber (contended k) (inYear 2025) 0 ''Laptop''
       = Some (Inr ''LA-2025-001'')"
    by (rule budget_sound)
  from 1 2 3 4 show ?thesis by blast
qed

theorem retry_without_budget_witness:
  "generateSerialNumber_budget (Suc (Suc (Suc 0))) (contended 2) (inYear 2025) 0 ''Laptop''
     = Some (Inr ''LA-2025-001'')
   \<and> generateSerialNumber (contended 2) (inYear 2025) 0 ''Laptop''
       = generateSerialNumber_budget (Suc (Suc (Suc 0))) (contended 2) (inYear 2025) 0 ''Laptop''
   \<and> generateSerialNumber_budget 2 (contended 2) (inYear 2025) 0 ''Laptop'' = None"
proof -
  have s: "generateSerialNumber_budget (Suc (Suc (Suc 0))) (contended 2) (inYear 2025) 0 ''Laptop''
     = Some (Inr ''LA-2025-001'')"
    by code_simp
  then have "generateSerialNumber_budget (Suc (Suc (Suc 0))) (contended 2) (inYear 2025) 0 ''Laptop''
     \<noteq> None" by simp
  with retry_without_budget[where b = "Suc (Suc (Suc 0))" and seen = "contended 2"
      and clock = "inYear 2025" and j = 0 and assetType = "''Laptop''" and k = 2] s
  show ?thesis by blast
qed

section \<open>Store errors in the handlers\<close>

text \<open>
  Claim C9 fails for Assign. Asset 1 is free when the procedure of a request tests it;
  before the procedure inserts, another request assigns the asset. The insert then hits
  the filtered unique index and adds no row, the \<^verbatim>\<open>catch\<close> block looks for
  \<^verbatim>\<open>already assigned\<close> in the message of the error, does not find it, and the request is
  answered 400 with the engine's message instead of 409.
\<close>

theorem racing_assign_answered_with_store_error:
  "activeOfAsset ledgerDb 1 = []
   \<and> sp_AssignAsset_steps ledgerDb assignedDb 1 2 6 =
       (assignedDb\<lparr>identAssignments := 2\<rparr>,
        Inl (DuplicateKeyIndex ''dbo.AssetAssignments'' ''UQ_OneAssetOneEmployee''))
   \<and> post_assignments_steps ledgerDb assignedDb 1 2 6 =
       (assignedDb\<lparr>identAssignments := 2\<rparr>,
        \<lparr>status = 400, success = False,
          message = ''Cannot insert duplicate key row in object dbo.AssetAssignments with unique index UQ_OneAssetOneEmployee.'',
          data = None\<rparr>)
   \<and> activeOfAsset (assignedDb\<lparr>identAssignments := 2\<rparr>) 1 =
       [\<lparr>AssignmentId = 1, aa_AssetId = 1, aa_EmployeeId = 1, AssignedAt = 5, ReturnedAt = None\<rparr>]"
  by code_simp

end
